theory Spec2Isabelle
  imports Complex_Main
begin

section \<open>Geometry: laserengraver\_geometry.py\<close>

text \<open>
  Coordinates are Python floats in the source. The embedding takes them as
  real numbers, so every statement below is about exact arithmetic; rounding
  of the floating-point operations is outside the model. A point is the
  two-element list \<^verbatim>\<open>[x, y]\<close> of the source, here a pair.
\<close>

type_synonym point = "real \<times> real"

text \<open>
  One node of a cubic super path is the list
  \<^verbatim>\<open>[handle_in, point, handle_out]\<close>; the source reads it as
  \<^verbatim>\<open>sp[0]\<close>, \<^verbatim>\<open>sp[1]\<close>, \<^verbatim>\<open>sp[2]\<close>.
\<close>

record anchor =
  handle_in :: point
  node :: point
  handle_out :: point

type_synonym coefficients =
  "real \<times> real \<times> real \<times> real \<times> real \<times> real \<times> real \<times> real"

definition bezier_parameterize :: "point \<times> point \<times> point \<times> point \<Rightarrow> coefficients" where
  "bezier_parameterize bezier =
     (case bezier of ((x0, y0), (x1, y1), (x2, y2), (x3, y3)) \<Rightarrow>
        let cx = 3 * (x1 - x0);
            bx = 3 * (x2 - x1) - cx;
            ax = x3 - x0 - cx - bx;
            cy = 3 * (y1 - y0);
            by = 3 * (y2 - y1) - cy;
            ay = y3 - y0 - cy - by
        in (ax, ay, bx, by, cx, cy, x0, y0))"

definition csp_parameterize :: "anchor \<Rightarrow> anchor \<Rightarrow> coefficients" where
  "csp_parameterize sp1 sp2 =
     bezier_parameterize (node sp1, handle_out sp1, handle_in sp2, node sp2)"

definition csp_at_t :: "anchor \<Rightarrow> anchor \<Rightarrow> real \<Rightarrow> point" where
  "csp_at_t sp1 sp2 t =
     (case csp_parameterize sp1 sp2 of (ax, ay, bx, by, cx, cy, dx, dy) \<Rightarrow>
        (ax * t ^ 3 + bx * t ^ 2 + cx * t + dx,
         ay * t ^ 3 + by * t ^ 2 + cy * t + dy))"

definition csp_split :: "anchor \<Rightarrow> anchor \<Rightarrow> real \<Rightarrow> anchor \<times> anchor \<times> anchor" where
  "csp_split sp1 sp2 t =
     (let p0 = node sp1; p1 = handle_out sp1; p2 = handle_in sp2; p3 = node sp2;
          p01 = (fst p0 + (fst p1 - fst p0) * t, snd p0 + (snd p1 - snd p0) * t);
          p12 = (fst p1 + (fst p2 - fst p1) * t, snd p1 + (snd p2 - snd p1) * t);
          p23 = (fst p2 + (fst p3 - fst p2) * t, snd p2 + (snd p3 - snd p2) * t);
          p012 = (fst p01 + (fst p12 - fst p01) * t, snd p01 + (snd p12 - snd p01) * t);
          p123 = (fst p12 + (fst p23 - fst p12) * t, snd p12 + (snd p23 - snd p12) * t);
          p0123 = (fst p012 + (fst p123 - fst p012) * t,
                   snd p012 + (snd p123 - snd p012) * t);
          sp_left = \<lparr>handle_in = handle_in sp1, node = node sp1, handle_out = p01\<rparr>;
          sp_mid = \<lparr>handle_in = p012, node = p0123, handle_out = p123\<rparr>;
          sp_right = \<lparr>handle_in = p23, node = node sp2, handle_out = handle_out sp2\<rparr>
      in (sp_left, sp_mid, sp_right))"

subsection \<open>Class \<^verbatim>\<open>P\<close>\<close>

text \<open>
  The vector operations of class \<^verbatim>\<open>P\<close> that the biarc fit uses.
  \<^verbatim>\<open>mag\<close> is \<^verbatim>\<open>math.hypot\<close>; \<^verbatim>\<open>__mul__\<close> with a number
  is \<open>P_mul\<close>, with another \<^verbatim>\<open>P\<close> it is \<open>P_dot\<close>.
\<close>

definition P_add :: "point \<Rightarrow> point \<Rightarrow> point" where
  "P_add a b = (fst a + fst b, snd a + snd b)"

definition P_sub :: "point \<Rightarrow> point \<Rightarrow> point" where
  "P_sub a b = (fst a - fst b, snd a - snd b)"

definition P_mul :: "point \<Rightarrow> real \<Rightarrow> point" where
  "P_mul a k = (fst a * k, snd a * k)"

definition P_dot :: "point \<Rightarrow> point \<Rightarrow> real" where
  "P_dot a b = fst a * fst b + snd a * snd b"

definition P_truediv :: "point \<Rightarrow> real \<Rightarrow> point" where
  "P_truediv a k = (fst a / k, snd a / k)"

definition mag :: "point \<Rightarrow> real" where
  "mag a = sqrt ((fst a)\<^sup>2 + (snd a)\<^sup>2)"

definition unit :: "point \<Rightarrow> point" where
  "unit a = (let m = mag a in if m > 0 then P_truediv a m else (0, 0))"

datatype primitive =
    Line (prim_start: point) (prim_end: point)
  | Arc (prim_start: point) (prim_end: point) (center: point) (angle: real)

definition fit_biarc :: "anchor \<Rightarrow> anchor \<Rightarrow> primitive list option" where
  "fit_biarc sp1 sp2 =
     (let P0 = node sp1;
          P3 = node sp2;
          T0 = P_sub (handle_out sp1) P0;
          T3 = P_sub (node sp2) (handle_in sp2)
      in if mag T0 < 1 / 10 ^ 6 \<or> mag T3 < 1 / 10 ^ 6 then None
         else
           let T0 = unit T0;
               T3 = unit T3;
               V = P_sub P3 P0
           in if \<bar>fst T0 * snd T3 - snd T0 * fst T3\<bar> < 1 / 10 ^ 6 then None
              else
                let t = 1 / 2;
                    P1 = P_add P0 (P_mul V t)
                in Some [Arc P0 P1 (P_truediv (P_add P0 P1) 2) 0,
                         Arc P1 P3 (P_truediv (P_add P1 P3) 2) 0])"

subsection \<open>Biarc approximation\<close>

text \<open>
  \<^verbatim>\<open>if result:\<close> tests the truthiness of the value returned by
  \<^verbatim>\<open>fit_biarc\<close>: \<^verbatim>\<open>None\<close> and the empty list are false.
\<close>

definition truthy :: "primitive list option \<Rightarrow> bool" where
  "truthy result = (case result of None \<Rightarrow> False | Some xs \<Rightarrow> xs \<noteq> [])"

text \<open>
  The inner function \<^verbatim>\<open>split_and_approximate\<close>; \<open>max_depth\<close>, which the
  source captures from the enclosing call, is its first argument. Both depths are
  Python integers. The recursion terminates because \<open>max_depth - depth\<close>
  decreases.
\<close>

function split_and_approximate :: "int \<Rightarrow> anchor \<Rightarrow> anchor \<Rightarrow> int \<Rightarrow> primitive list" where
  "split_and_approximate max_depth sp1 sp2 depth =
     (if depth \<ge> max_depth then [Line (node sp1) (node sp2)]
      else
        let p0 = node sp1; p1 = handle_out sp1; p2 = handle_in sp2; p3 = node sp2;
            chord_length = sqrt ((fst p3 - fst p0)\<^sup>2 + (snd p3 - snd p0)\<^sup>2)
        in if chord_length < 1 / 100 then [Line p0 p3]
           else
             let d1 = \<bar>(snd p1 - snd p0) * (fst p3 - fst p0) -
                       (fst p1 - fst p0) * (snd p3 - snd p0)\<bar> / chord_length;
                 d2 = \<bar>(snd p2 - snd p0) * (fst p3 - fst p0) -
                       (fst p2 - fst p0) * (snd p3 - snd p0)\<bar> / chord_length
             in if max d1 d2 < 1 / 10 then [Line p0 p3]
                else
                  let result = fit_biarc sp1 sp2
                  in if truthy result then the result
                     else
                       (case csp_split sp1 sp2 (1 / 2) of (sp_left, sp_mid, sp_right) \<Rightarrow>
                          split_and_approximate max_depth sp_left sp_mid (depth + 1) @
                          split_and_approximate max_depth sp_mid sp_right (depth + 1)))"
  by pat_completeness auto
termination
  by (relation "measure (\<lambda>(max_depth, sp1, sp2, depth). nat (max_depth - depth))") auto

definition biarc_approximation :: "anchor \<Rightarrow> anchor \<Rightarrow> int \<Rightarrow> primitive list" where
  "biarc_approximation sp1 sp2 max_depth = split_and_approximate max_depth sp1 sp2 0"


declare split_and_approximate.simps [simp del]

text \<open>
  The same recursion, recording every invocation: the value of \<open>depth\<close> it was
  called with, its two arguments, the list it returns and the invocations it
  makes itself. It follows the source branch by branch.
\<close>

datatype call_tree =
  Call (call_depth: int) (call_sp1: anchor) (call_sp2: anchor)
       (call_result: "primitive list") (subcalls: "call_tree list")

function split_and_approximate_calls :: "int \<Rightarrow> anchor \<Rightarrow> anchor \<Rightarrow> int \<Rightarrow> call_tree" where
  "split_and_approximate_calls max_depth sp1 sp2 depth =
     (if depth \<ge> max_depth then Call depth sp1 sp2 [Line (node sp1) (node sp2)] []
      else
        let p0 = node sp1; p1 = handle_out sp1; p2 = handle_in sp2; p3 = node sp2;
            chord_length = sqrt ((fst p3 - fst p0)\<^sup>2 + (snd p3 - snd p0)\<^sup>2)
        in if chord_length < 1 / 100 then Call depth sp1 sp2 [Line p0 p3] []
           else
             let d1 = \<bar>(snd p1 - snd p0) * (fst p3 - fst p0) -
                       (fst p1 - fst p0) * (snd p3 - snd p0)\<bar> / chord_length;
                 d2 = \<bar>(snd p2 - snd p0) * (fst p3 - fst p0) -
                       (fst p2 - fst p0) * (snd p3 - snd p0)\<bar> / chord_length
             in if max d1 d2 < 1 / 10 then Call depth sp1 sp2 [Line p0 p3] []
                else
                  let result = fit_biarc sp1 sp2
                  in if truthy result then Call depth sp1 sp2 (the result) []
                     else
                       (case csp_split sp1 sp2 (1 / 2) of (sp_left, sp_mid, sp_right) \<Rightarrow>
                          let left = split_and_approximate_calls max_depth sp_left sp_mid (depth + 1);
                              right = split_and_approximate_calls max_depth sp_mid sp_right (depth + 1)
                          in Call depth sp1 sp2 (call_result left @ call_result right)
                               [left, right]))"
  by pat_completeness auto
termination
  by (relation "measure (\<lambda>(max_depth, sp1, sp2, depth). nat (max_depth - depth))") auto

fun all_calls :: "call_tree \<Rightarrow> call_tree list" where
  "all_calls (Call d a b r cs) = Call d a b r cs # concat (map all_calls cs)"


declare split_and_approximate_calls.simps [simp del]

section \<open>Emitter: \<^verbatim>\<open>LaserEngraver._path_to_gcode\<close>\<close>

text \<open>
  One output line is a command word followed by address fields, each a letter
  and a number. The source renders the numbers with \<^verbatim>\<open>:.4f\<close>; the
  model keeps the number itself, so a line is the word and its fields in order.
  \<open>px_per_mm\<close> is \<^verbatim>\<open>self.svg.unittouu('1mm')\<close> and \<open>page_height_px\<close>
  is the height of the view box, both supplied by the host document;
  \<open>curve_mode\<close> is the option after \<^verbatim>\<open>strip().lower()\<close> and \<open>feed\<close> is
  \<^verbatim>\<open>self.tool['feed']\<close>. Dividing by a zero \<open>px_per_mm\<close> raises
  \<^verbatim>\<open>ZeroDivisionError\<close> as soon as a subpath is processed.
\<close>

datatype gline = GLine (word: string) (params: "(char \<times> real) list")

datatype error = ZeroDivisionError | IndexError | OverflowError

record settings =
  px_per_mm :: real
  page_height_px :: real
  curve_mode :: string
  polyline_segments :: int
  biarc_max_split_depth :: int
  feed :: int

definition gcode_before_path :: gline where
  "gcode_before_path = GLine ''M03'' []"

definition gcode_after_path :: gline where
  "gcode_after_path = GLine ''M05'' []"

definition poly_segments :: "settings \<Rightarrow> int" where
  "poly_segments cfg = max 2 (polyline_segments cfg)"

definition arc_gcode :: "settings \<Rightarrow> primitive \<Rightarrow> gline" where
  "arc_gcode cfg arc =
     (case arc of
        Line start_pt end_pt \<Rightarrow>
          let x = fst end_pt / px_per_mm cfg;
              y = (page_height_px cfg - snd end_pt) / px_per_mm cfg
          in GLine ''G1'' [(CHR ''X'', x), (CHR ''Y'', y), (CHR ''F'', of_int (feed cfg))]
      | Arc start_arc end_pt center_pt ang \<Rightarrow>
          let x = fst end_pt / px_per_mm cfg;
              y = (page_height_px cfg - snd end_pt) / px_per_mm cfg;
              i_off = (fst center_pt - fst start_arc) / px_per_mm cfg;
              j_off = - ((snd center_pt - snd start_arc) / px_per_mm cfg);
              direction = (if ang < 0 then ''G02'' else ''G03'')
          in GLine direction
               [(CHR ''X'', x), (CHR ''Y'', y), (CHR ''I'', i_off), (CHR ''J'', j_off)])"

text \<open>The body of the loop over consecutive anchors of one subpath.\<close>

definition segment_gcode :: "settings \<Rightarrow> anchor \<Rightarrow> anchor \<Rightarrow> gline list" where
  "segment_gcode cfg sp1 sp2 =
     (if curve_mode cfg = ''biarc''
      then map (arc_gcode cfg) (biarc_approximation sp1 sp2 (biarc_max_split_depth cfg))
      else map (\<lambda>s. let t = of_int s / of_int (poly_segments cfg);
                        p = csp_at_t sp1 sp2 t;
                        x = fst p / px_per_mm cfg;
                        y = (page_height_px cfg - snd p) / px_per_mm cfg
                    in GLine ''G1''
                         [(CHR ''X'', x), (CHR ''Y'', y), (CHR ''F'', of_int (feed cfg))])
             [1..poly_segments cfg])"

fun segments_gcode :: "settings \<Rightarrow> anchor list \<Rightarrow> gline list" where
  "segments_gcode cfg (sp1 # sp2 # rest) =
     segment_gcode cfg sp1 sp2 @ segments_gcode cfg (sp2 # rest)"
| "segments_gcode cfg _ = []"

definition subpath_gcode :: "settings \<Rightarrow> anchor list \<Rightarrow> gline list" where
  "subpath_gcode cfg subpath =
     (if length subpath < 2 then []
      else
        let start = node (hd subpath);
            x0 = fst start / px_per_mm cfg;
            y0 = (page_height_px cfg - snd start) / px_per_mm cfg
        in [GLine ''G0'' [(CHR ''X'', x0), (CHR ''Y'', y0)], gcode_before_path] @
           segments_gcode cfg subpath @ [gcode_after_path])"

definition path_to_gcode :: "settings \<Rightarrow> anchor list list \<Rightarrow> error + gline list" where
  "path_to_gcode cfg csp =
     (if px_per_mm cfg = 0 \<and> list_ex (\<lambda>subpath. \<not> length subpath < 2) csp
      then Inl ZeroDivisionError
      else Inr (concat (map (subpath_gcode cfg) csp)))"

section \<open>G-code generator: \<^verbatim>\<open>GCodeGenerator.move_to\<close>\<close>

text \<open>
  The generator object keeps the last written coordinate of each axis, initially
  \<^verbatim>\<open>None\<close>. \<open>move_to\<close> returns the line and the updated object.
\<close>

record generator =
  current_x :: "real option"
  current_y :: "real option"

definition move_to :: "generator \<Rightarrow> real \<Rightarrow> real \<Rightarrow> bool \<Rightarrow> gline \<times> generator" where
  "move_to self x y rapid =
     (let code = (if rapid then ''G0'' else ''G1'');
          parts = [];
          (parts, self) =
            (if current_x self = None \<or> \<bar>x - the (current_x self)\<bar> > 1 / 10 ^ 6
             then (parts @ [(CHR ''X'', x)], self\<lparr>current_x := Some x\<rparr>)
             else (parts, self));
          (parts, self) =
            (if current_y self = None \<or> \<bar>y - the (current_y self)\<bar> > 1 / 10 ^ 6
             then (parts @ [(CHR ''Y'', y)], self\<lparr>current_y := Some y\<rparr>)
             else (parts, self))
      in (GLine code parts, self))"

section \<open>Calibration: \<^verbatim>\<open>OrientationManager\<close>\<close>

text \<open>
  A document element, as far as the lookup reads it: its identity (the source
  uses the element object itself as dictionary key), whether its
  \<^verbatim>\<open>inkscape:groupmode\<close> attribute is \<^verbatim>\<open>layer\<close>, and
  \<^verbatim>\<open>getparent()\<close>. A correspondence is the pair
  \<^verbatim>\<open>(svg_pos, gcode_pos)\<close> of a drawing point and a machine point with
  its \<open>z\<close>. A \<^verbatim>\<open>Transform\<close> object is kept as the list of the
  \<^verbatim>\<open>add_translate\<close>, \<^verbatim>\<open>add_scale\<close> and \<^verbatim>\<open>add_rotate\<close>
  calls made on it, in call order; the rotation is given in degrees.
\<close>

datatype 'l element =
  Element (ident: 'l) (groupmode_layer: bool) (getparent: "'l element option")

type_synonym correspondence = "point \<times> (real \<times> real \<times> real)"

datatype transform_op = Translate real real | Scale real real | Rotate real

type_synonym transform = "transform_op list"

record 'l orientation_manager =
  orientation_points :: "'l \<rightharpoonup> correspondence list list"
  transforms :: "'l \<rightharpoonup> transform"

text \<open>
  \<^verbatim>\<open>_get_parent_layer\<close>: the loop walks up from the parent until it meets
  an element that is a layer.
\<close>

fun first_layer :: "'l element option \<Rightarrow> 'l element option" where
  "first_layer None = None"
| "first_layer (Some (Element i layer p)) =
     (if layer then Some (Element i layer p) else first_layer p)"

definition get_parent_layer :: "'l element \<Rightarrow> 'l element option" where
  "get_parent_layer layer = first_layer (getparent layer)"

text \<open>
  The elements above an element, nearest first. The parent chain of a document
  tree is finite; its length is the measure of the lookup loop below.
\<close>

fun ancestors :: "'l element \<Rightarrow> 'l element list" where
  "ancestors (Element i layer None) = []"
| "ancestors (Element i layer (Some p)) = p # ancestors p"

lemma first_layer_ancestors:
  "first_layer p = Some q \<Longrightarrow> \<exists>e. p = Some e \<and> length (ancestors q) \<le> length (ancestors e)"
proof (induction p rule: first_layer.induct)
  case 1
  then show ?case by simp
next
  case (2 i layer p)
  show ?case
  proof (cases layer)
    case True
    with 2 show ?thesis by auto
  next
    case False
    with 2 obtain e where "p = Some e" "length (ancestors q) \<le> length (ancestors e)" by auto
    then show ?thesis by auto
  qed
qed

lemma get_parent_layer_smaller:
  "get_parent_layer current = Some q \<Longrightarrow> length (ancestors q) < length (ancestors current)"
proof -
  assume a: "get_parent_layer current = Some q"
  obtain i layer p where c: "current = Element i layer p" by (cases current)
  with a have "first_layer p = Some q" by (simp add: get_parent_layer_def)
  from first_layer_ancestors[OF this] c show ?thesis by auto
qed

text \<open>
  The \<^verbatim>\<open>while current is not None\<close> loop of
  \<^verbatim>\<open>get_transform_for_layer\<close>: the first group of the nearest element that
  has an entry. Indexing an empty list of groups with \<^verbatim>\<open>[0]\<close> raises
  \<^verbatim>\<open>IndexError\<close>.
\<close>

function lookup_points ::
  "('l \<rightharpoonup> correspondence list list) \<Rightarrow> 'l element option \<Rightarrow> error + correspondence list option"
where
  "lookup_points ops None = Inr None"
| "lookup_points ops (Some current) =
     (case ops (ident current) of
        Some groups \<Rightarrow> (case groups of [] \<Rightarrow> Inl IndexError | points # _ \<Rightarrow> Inr (Some points))
      | None \<Rightarrow> lookup_points ops (get_parent_layer current))"
  by pat_completeness auto
termination
  by (relation "measure (\<lambda>(ops, c). case c of None \<Rightarrow> 0 | Some e \<Rightarrow> Suc (length (ancestors e)))")
     (auto simp: get_parent_layer_smaller split: option.splits)

text \<open>
  \<^verbatim>\<open>math.atan2\<close> and \<^verbatim>\<open>math.degrees\<close> on real numbers.
\<close>

definition atan2 :: "real \<Rightarrow> real \<Rightarrow> real" where
  "atan2 y x =
     (if x > 0 then arctan (y / x)
      else if x < 0 then (if y \<ge> 0 then arctan (y / x) + pi else arctan (y / x) - pi)
      else if y > 0 then pi / 2
      else if y < 0 then - (pi / 2)
      else 0)"

definition degrees :: "real \<Rightarrow> real" where
  "degrees r = r * 180 / pi"

text \<open>
  \<^verbatim>\<open>x**2\<close> on a float. Python raises \<^verbatim>\<open>OverflowError\<close> when the power
  of a finite float is out of range, that is, when the square rounds to
  infinity: it is at least \<open>2^1024 - 2^970\<close>, half a unit in the last place
  above the largest float. (A difference that is itself infinite has an
  infinite square and raises nothing; sums, quotients and \<^verbatim>\<open>**0.5\<close> of
  non-negative floats raise nothing either.) Rounding apart, the value is the
  real square.
\<close>

definition float_overflow :: real where
  "float_overflow = 2 ^ 1024 - 2 ^ 970"

definition sq_overflows :: "real \<Rightarrow> bool" where
  "sq_overflows x = (float_overflow \<le> x\<^sup>2 \<and> \<bar>x\<bar> < float_overflow)"

definition pow2 :: "real \<Rightarrow> error + real" where
  "pow2 x = (if sq_overflows x then Inl OverflowError else Inr (x\<^sup>2))"

text \<open>
  The computation of \<^verbatim>\<open>get_transform_for_layer\<close> from the two points on
  (\<^verbatim>\<open>svg1, gcode1 = points[0]\<close> to the last \<^verbatim>\<open>add_translate\<close>). The
  four squares are taken in the order of the source, both lengths before the
  test of \<^verbatim>\<open>svg_length\<close>; the first one that overflows ends the call.
\<close>

definition calculate_transform ::
  "correspondence \<Rightarrow> correspondence \<Rightarrow> error + transform option" where
  "calculate_transform c1 c2 =
     (case (c1, c2) of ((svg1, (gx1, gy1, gz1)), (svg2, (gx2, gy2, gz2))) \<Rightarrow>
        let svg_dx = fst svg2 - fst svg1;
            svg_dy = snd svg2 - snd svg1;
            gcode_dx = gx2 - gx1;
            gcode_dy = gy2 - gy1
        in case pow2 svg_dx of Inl e \<Rightarrow> Inl e | Inr svg_dx2 \<Rightarrow>
           case pow2 svg_dy of Inl e \<Rightarrow> Inl e | Inr svg_dy2 \<Rightarrow>
           case pow2 gcode_dx of Inl e \<Rightarrow> Inl e | Inr gcode_dx2 \<Rightarrow>
           case pow2 gcode_dy of Inl e \<Rightarrow> Inl e | Inr gcode_dy2 \<Rightarrow>
             let svg_length = sqrt (svg_dx2 + svg_dy2);
                 gcode_length = sqrt (gcode_dx2 + gcode_dy2)
             in if svg_length < 1 / 10 ^ 6 then Inr None
                else
                  let scale = gcode_length / svg_length;
                      svg_angle = atan2 svg_dy svg_dx;
                      gcode_angle = atan2 gcode_dy gcode_dx;
                      rotation = gcode_angle - svg_angle
                  in Inr (Some [Translate (- fst svg1) (- snd svg1), Scale scale scale,
                                Rotate (degrees rotation), Translate gx1 gy1]))"

text \<open>
  \<^verbatim>\<open>get_transform_for_layer\<close> returns the transform, or \<^verbatim>\<open>None\<close>,
  and the manager with its cache updated, or ends with the exception raised on
  the way. The pattern \<open>c1 # c2 # _\<close> is the test
  \<^verbatim>\<open>not points or len(points) < 2\<close> failing.
\<close>

definition get_transform_for_layer ::
  "'l orientation_manager \<Rightarrow> 'l element \<Rightarrow>
     error + (transform option \<times> 'l orientation_manager)" where
  "get_transform_for_layer self layer =
     (case transforms self (ident layer) of
        Some t \<Rightarrow> Inr (Some t, self)
      | None \<Rightarrow>
          (case lookup_points (orientation_points self) (Some layer) of
             Inl e \<Rightarrow> Inl e
           | Inr points \<Rightarrow>
               (case points of
                  Some (c1 # c2 # _) \<Rightarrow>
                    (case calculate_transform c1 c2 of
                       Inl e \<Rightarrow> Inl e
                     | Inr None \<Rightarrow> Inr (None, self)
                     | Inr (Some transform) \<Rightarrow>
                         Inr (Some transform,
                              self\<lparr>transforms := (transforms self)(ident layer \<mapsto> transform)\<rparr>))
                | _ \<Rightarrow> Inr (None, self))))"

text \<open>
  \<^verbatim>\<open>find_orientation_points\<close>. Finding the groups in the document and
  reading their points is the host's work; the model receives, for each group,
  its layer and the list of points read, and runs the validation at the end of
  \<^verbatim>\<open>_parse_orientation_group\<close> and the loop that files the groups under
  their layers.
\<close>

definition parse_orientation_group :: "correspondence list \<Rightarrow> correspondence list option" where
  "parse_orientation_group points =
     (if length points = 2 \<or> length points = 3 then Some points else None)"

fun add_groups ::
  "('l \<times> correspondence list) list \<Rightarrow> ('l \<rightharpoonup> correspondence list list) \<Rightarrow>
     ('l \<rightharpoonup> correspondence list list)" where
  "add_groups [] ops = ops"
| "add_groups ((layer, parsed) # groups) ops =
     (case parse_orientation_group parsed of
        None \<Rightarrow> add_groups groups ops
      | Some points \<Rightarrow>
          if points = [] then add_groups groups ops
          else add_groups groups
                 (ops(layer \<mapsto> (case ops layer of None \<Rightarrow> [] | Some gs \<Rightarrow> gs) @ [points])))"

definition find_orientation_points ::
  "'l orientation_manager \<Rightarrow> ('l \<times> correspondence list) list \<Rightarrow> bool \<times> 'l orientation_manager" where
  "find_orientation_points self groups =
     (let ops = add_groups groups Map.empty
      in (ops \<noteq> Map.empty, self\<lparr>orientation_points := ops\<rparr>))"

text \<open>
  \<^verbatim>\<open>inkex.Transform\<close> is a class of the host library, not of these
  sources. It keeps the six entries \<open>(a, b, c, d, e, f)\<close> of an affine matrix,
  at first those of the identity. Each of \<^verbatim>\<open>add_translate\<close>,
  \<^verbatim>\<open>add_scale\<close> and \<^verbatim>\<open>add_rotate\<close> multiplies the matrix kept so
  far, on the right, by the matrix of the new step (a rotation by \<open>deg\<close> degrees
  about the origin), and the transform maps \<open>(x, y)\<close> to
  \<open>(a x + c y + e, b x + d y + f)\<close>. So the step added last acts on a point
  first.
\<close>

type_synonym matrix = "real \<times> real \<times> real \<times> real \<times> real \<times> real"

definition matmul :: "matrix \<Rightarrow> matrix \<Rightarrow> matrix" where
  "matmul m other =
     (case (m, other) of ((a1, b1, c1, d1, e1, f1), (a2, b2, c2, d2, e2, f2)) \<Rightarrow>
        (a1 * a2 + c1 * b2, b1 * a2 + d1 * b2,
         a1 * c2 + c1 * d2, b1 * c2 + d1 * d2,
         a1 * e2 + c1 * f2 + e1, b1 * e2 + d1 * f2 + f1))"

fun op_matrix :: "transform_op \<Rightarrow> matrix" where
  "op_matrix (Translate tx ty) = (1, 0, 0, 1, tx, ty)"
| "op_matrix (Scale sx sy) = (sx, 0, 0, sy, 0, 0)"
| "op_matrix (Rotate deg) =
     (let theta = deg * pi / 180 in (cos theta, sin theta, - sin theta, cos theta, 0, 0))"

definition transform_matrix :: "transform \<Rightarrow> matrix" where
  "transform_matrix t = foldl (\<lambda>m step. matmul m (op_matrix step)) (1, 0, 0, 1, 0, 0) t"

definition apply_to_point :: "transform \<Rightarrow> point \<Rightarrow> point" where
  "apply_to_point t p =
     (case transform_matrix t of (a, b, c, d, e, f) \<Rightarrow>
        (a * fst p + c * snd p + e, b * fst p + d * snd p + f))"

text \<open>\<^verbatim>\<open>P.rot\<close> of the geometry module.\<close>

definition P_rot :: "point \<Rightarrow> real \<Rightarrow> point" where
  "P_rot a theta =
     (let c = cos theta; s = sin theta in (fst a * c - snd a * s, fst a * s + snd a * c))"



section \<open>Bezier segment algebra\<close>


text \<open>
  C5. Endpoint interpolation: for every segment, the derived cubic evaluated
  at \<open>t = 0\<close> is the start point \<open>P0\<close> and at \<open>t = 1\<close> the end point \<open>P3\<close>;
  the coefficients satisfy \<open>d = P0\<close> and \<open>a + b + c + d = P3\<close>.
\<close>

theorem csp_at_t_endpoints:
  "csp_at_t sp1 sp2 0 = node sp1 \<and> csp_at_t sp1 sp2 1 = node sp2 \<and>
   (case csp_parameterize sp1 sp2 of (ax, ay, bx, by, cx, cy, dx, dy) \<Rightarrow>
      (dx, dy) = node sp1 \<and> (ax + bx + cx + dx, ay + by + cy + dy) = node sp2)"
  by (cases "node sp1"; cases "handle_out sp1"; cases "handle_in sp2"; cases "node sp2")
     (simp add: csp_at_t_def csp_parameterize_def bezier_parameterize_def Let_def)

text \<open>
  C6. Subdivision fidelity: splitting at \<open>t\<close> gives a left segment
  \<open>(sp_left, sp_mid)\<close> and a right segment \<open>(sp_mid, sp_right)\<close>; the left one
  at \<open>u\<close> is the original at \<open>t * u\<close>, the right one at \<open>u\<close> is the original
  at \<open>t + (1 - t) * u\<close>. The identity holds for all real \<open>t\<close> and \<open>u\<close>, in
  particular on the unit interval.
\<close>

theorem csp_split_fidelity:
  "(case csp_split sp1 sp2 t of (sp_left, sp_mid, sp_right) \<Rightarrow>
      csp_at_t sp_left sp_mid u = csp_at_t sp1 sp2 (t * u) \<and>
      csp_at_t sp_mid sp_right u = csp_at_t sp1 sp2 (t + (1 - t) * u))"
  by (cases "node sp1"; cases "handle_out sp1"; cases "handle_in sp2"; cases "node sp2")
     (simp add: csp_split_def csp_at_t_def csp_parameterize_def bezier_parameterize_def
        Let_def power2_eq_square power3_eq_cube algebra_simps)


section \<open>Depth of the biarc recursion\<close>

definition must_split :: "int \<Rightarrow> anchor \<Rightarrow> anchor \<Rightarrow> int \<Rightarrow> bool" where
  "must_split max_depth sp1 sp2 depth =
     (let p0 = node sp1; p1 = handle_out sp1; p2 = handle_in sp2; p3 = node sp2;
          chord_length = sqrt ((fst p3 - fst p0)\<^sup>2 + (snd p3 - snd p0)\<^sup>2);
          d1 = \<bar>(snd p1 - snd p0) * (fst p3 - fst p0) -
                (fst p1 - fst p0) * (snd p3 - snd p0)\<bar> / chord_length;
          d2 = \<bar>(snd p2 - snd p0) * (fst p3 - fst p0) -
                (fst p2 - fst p0) * (snd p3 - snd p0)\<bar> / chord_length
      in \<not> depth \<ge> max_depth \<and> \<not> chord_length < 1 / 100 \<and> \<not> max d1 d2 < 1 / 10 \<and>
         \<not> truthy (fit_biarc sp1 sp2))"


lemma split_and_approximate_leaf:
  "max_depth \<le> depth \<Longrightarrow>
   split_and_approximate max_depth sp1 sp2 depth = [Line (node sp1) (node sp2)]"
  by (subst split_and_approximate.simps) simp

lemma split_and_approximate_split:
  "must_split max_depth sp1 sp2 depth \<Longrightarrow>
   split_and_approximate max_depth sp1 sp2 depth =
     split_and_approximate max_depth (fst (csp_split sp1 sp2 (1 / 2)))
       (fst (snd (csp_split sp1 sp2 (1 / 2)))) (depth + 1) @
     split_and_approximate max_depth (fst (snd (csp_split sp1 sp2 (1 / 2))))
       (snd (snd (csp_split sp1 sp2 (1 / 2)))) (depth + 1)"
  by (subst split_and_approximate.simps)
     (simp add: must_split_def Let_def split: prod.splits)

lemma calls_split:
  "must_split max_depth sp1 sp2 depth \<Longrightarrow>
   split_and_approximate_calls max_depth sp1 sp2 depth =
     (let left = split_and_approximate_calls max_depth (fst (csp_split sp1 sp2 (1 / 2)))
                   (fst (snd (csp_split sp1 sp2 (1 / 2)))) (depth + 1);
          right = split_and_approximate_calls max_depth (fst (snd (csp_split sp1 sp2 (1 / 2))))
                   (snd (snd (csp_split sp1 sp2 (1 / 2)))) (depth + 1)
      in Call depth sp1 sp2 (call_result left @ call_result right) [left, right])"
  by (subst split_and_approximate_calls.simps)
     (simp add: must_split_def Let_def split: prod.splits)


lemma calls_no_split:
  "\<not> must_split max_depth sp1 sp2 depth \<Longrightarrow>
   split_and_approximate_calls max_depth sp1 sp2 depth =
     Call depth sp1 sp2 (split_and_approximate max_depth sp1 sp2 depth) []"
  by (subst split_and_approximate_calls.simps, subst split_and_approximate.simps)
     (auto simp add: must_split_def Let_def split: prod.splits)

lemma split_induct:
  assumes step: "\<And>max_depth sp1 sp2 depth.
     (must_split max_depth sp1 sp2 depth \<Longrightarrow>
        P max_depth (fst (csp_split sp1 sp2 (1 / 2)))
          (fst (snd (csp_split sp1 sp2 (1 / 2)))) (depth + 1)) \<Longrightarrow>
     (must_split max_depth sp1 sp2 depth \<Longrightarrow>
        P max_depth (fst (snd (csp_split sp1 sp2 (1 / 2))))
          (snd (snd (csp_split sp1 sp2 (1 / 2)))) (depth + 1)) \<Longrightarrow>
     P max_depth sp1 sp2 depth"
  shows "P max_depth sp1 sp2 depth"
proof (induction max_depth sp1 sp2 depth rule: split_and_approximate.induct)
  case (1 max_depth sp1 sp2 depth)
  show ?case
  proof (rule step)
    assume m: "must_split max_depth sp1 sp2 depth"
    note m' = m[unfolded must_split_def Let_def]
    show "P max_depth (fst (csp_split sp1 sp2 (1 / 2)))
          (fst (snd (csp_split sp1 sp2 (1 / 2)))) (depth + 1)"
      apply (rule "1.IH"(1))
                   apply (use m' in blast)
                  apply (rule refl)
                 apply (rule refl)
                apply (rule refl)
               apply (rule refl)
              apply (rule refl)
             apply (use m' in blast)
            apply (rule refl)
           apply (rule refl)
          apply (use m' in blast)
         apply (rule refl)
        apply (use m' in blast)
       apply (rule prod.collapse)
      apply (rule prod.collapse)
      done
  next
    assume m: "must_split max_depth sp1 sp2 depth"
    note m' = m[unfolded must_split_def Let_def]
    show "P max_depth (fst (snd (csp_split sp1 sp2 (1 / 2))))
          (snd (snd (csp_split sp1 sp2 (1 / 2)))) (depth + 1)"
      apply (rule "1.IH"(2))
                   apply (use m' in blast)
                  apply (rule refl)
                 apply (rule refl)
                apply (rule refl)
               apply (rule refl)
              apply (rule refl)
             apply (use m' in blast)
            apply (rule refl)
           apply (rule refl)
          apply (use m' in blast)
         apply (rule refl)
        apply (use m' in blast)
       apply (rule prod.collapse)
      apply (rule prod.collapse)
      done
  qed
qed

lemma calls_root:
  "call_depth (split_and_approximate_calls max_depth sp1 sp2 depth) = depth \<and>
   call_sp1 (split_and_approximate_calls max_depth sp1 sp2 depth) = sp1 \<and>
   call_sp2 (split_and_approximate_calls max_depth sp1 sp2 depth) = sp2"
  by (cases "must_split max_depth sp1 sp2 depth")
     (simp_all add: calls_split calls_no_split Let_def)

lemma calls_result:
  "call_result (split_and_approximate_calls max_depth sp1 sp2 depth) =
   split_and_approximate max_depth sp1 sp2 depth"
proof (induction max_depth sp1 sp2 depth rule: split_induct)
  case (1 max_depth sp1 sp2 depth)
  show ?case
  proof (cases "must_split max_depth sp1 sp2 depth")
    case True
    with 1 show ?thesis
      by (simp add: calls_split split_and_approximate_split Let_def)
  next
    case False
    then show ?thesis by (simp add: calls_no_split)
  qed
qed

definition call_ok :: "int \<Rightarrow> call_tree \<Rightarrow> bool" where
  "call_ok max_depth c =
     (call_depth c \<le> max_depth \<and>
      (\<forall>s \<in> set (subcalls c). call_depth s = call_depth c + 1) \<and>
      (call_depth c \<ge> max_depth \<longrightarrow>
         subcalls c = [] \<and>
         call_result c = [Line (node (call_sp1 c)) (node (call_sp2 c))]))"

lemma must_split_depth: "must_split max_depth sp1 sp2 depth \<Longrightarrow> depth < max_depth"
  by (simp add: must_split_def Let_def)

lemma calls_ok:
  "depth \<le> max_depth \<Longrightarrow>
   \<forall>c \<in> set (all_calls (split_and_approximate_calls max_depth sp1 sp2 depth)).
     depth \<le> call_depth c \<and> call_ok max_depth c"
proof (induction max_depth sp1 sp2 depth rule: split_induct)
  case (1 max_depth sp1 sp2 depth)
  show ?case
  proof (cases "must_split max_depth sp1 sp2 depth")
    case True
    then have d: "depth + 1 \<le> max_depth" using must_split_depth by fastforce
    from True d have root: "call_ok max_depth (Call depth sp1 sp2 r
         [split_and_approximate_calls max_depth (fst (csp_split sp1 sp2 (1 / 2)))
            (fst (snd (csp_split sp1 sp2 (1 / 2)))) (depth + 1),
          split_and_approximate_calls max_depth (fst (snd (csp_split sp1 sp2 (1 / 2))))
            (snd (snd (csp_split sp1 sp2 (1 / 2)))) (depth + 1)])" for r
      by (simp add: call_ok_def calls_root)
    from "1.IH"(1)[OF True d] "1.IH"(2)[OF True d] root show ?thesis
      by (simp add: calls_split[OF True] Let_def) fastforce
  next
    case False
    with "1.prems" show ?thesis
      by (simp add: calls_no_split call_ok_def split_and_approximate_leaf)
  qed
qed



lemma sqrt_100: "sqrt 100 = 10"
  by (rule real_sqrt_unique) simp_all

lemma sqrt_25: "sqrt 25 = 5"
  by (rule real_sqrt_unique) simp_all

text \<open>
  An S-shaped segment whose end tangents are parallel, so that the fit is
  refused and the segment is split.
\<close>

definition s_start :: anchor where
  "s_start = \<lparr>handle_in = (0, 0), node = (0, 0), handle_out = (0, 10)\<rparr>"

definition s_end :: anchor where
  "s_end = \<lparr>handle_in = (10, - 10), node = (10, 0), handle_out = (10, 0)\<rparr>"

lemma fit_biarc_s: "fit_biarc s_start s_end = None"
  by (simp add: fit_biarc_def s_start_def s_end_def P_sub_def mag_def unit_def
        P_truediv_def Let_def sqrt_100)

lemma must_split_s: "must_split 1 s_start s_end 0"
  by (simp add: must_split_def fit_biarc_s truthy_def Let_def)
     (simp add: s_start_def s_end_def sqrt_100)

lemma calls_s:
  "split_and_approximate_calls 1 s_start s_end 0 =
     Call 0 s_start s_end [Line (0, 0) (5, 0), Line (5, 0) (10, 0)]
       [Call 1 \<lparr>handle_in = (0, 0), node = (0, 0), handle_out = (0, 5)\<rparr>
          \<lparr>handle_in = (5 / 2, 5 / 2), node = (5, 0), handle_out = (15 / 2, - (5 / 2))\<rparr>
          [Line (0, 0) (5, 0)] [],
        Call 1 \<lparr>handle_in = (5 / 2, 5 / 2), node = (5, 0), handle_out = (15 / 2, - (5 / 2))\<rparr>
          \<lparr>handle_in = (10, - 5), node = (10, 0), handle_out = (10, 0)\<rparr>
          [Line (5, 0) (10, 0)] []]"
  by (simp add: calls_split[OF must_split_s] Let_def calls_no_split must_split_def
        split_and_approximate_leaf)
     (simp add: csp_split_def s_start_def s_end_def Let_def)

text \<open>
  C4. The biarc approximation is a total function (its recursion is defined
  with a termination proof on \<open>max_depth - depth\<close>). For \<open>max_depth \<ge> 0\<close>,
  every invocation made while approximating a segment has a depth between \<open>0\<close>
  and \<open>max_depth\<close>; the invocations it makes itself are at its own depth plus one;
  an invocation at depth \<open>\<ge> max_depth\<close> makes none and returns the single line
  from its segment's start to its end. The recorded result is the result of
  \<open>biarc_approximation\<close>, and for \<open>max_depth = 0\<close> every segment gives exactly
  one line.
\<close>

theorem biarc_depth_bounded:
  "(0 \<le> max_depth \<longrightarrow>
      (\<forall>c \<in> set (all_calls (split_and_approximate_calls max_depth sp1 sp2 0)).
         0 \<le> call_depth c \<and> call_ok max_depth c)) \<and>
   call_result (split_and_approximate_calls max_depth sp1 sp2 0) =
     biarc_approximation sp1 sp2 max_depth \<and>
   biarc_approximation sp1 sp2 0 = [Line (node sp1) (node sp2)]"
  using calls_ok[of 0 max_depth sp1 sp2]
  by (simp add: calls_result biarc_approximation_def split_and_approximate_leaf)

theorem biarc_depth_bounded_witness:
  "(0::int) \<le> 1 \<and>
   map call_depth (all_calls (split_and_approximate_calls 1 s_start s_end 0)) = [0, 1, 1] \<and>
   call_ok 1 (split_and_approximate_calls 1 s_start s_end 0) \<and>
   map subcalls (subcalls (split_and_approximate_calls 1 s_start s_end 0)) = [[], []] \<and>
   biarc_approximation s_start s_end 1 = [Line (0, 0) (5, 0), Line (5, 0) (10, 0)]"
proof -
  note t = biarc_depth_bounded[of 1 s_start s_end]
  have a: "map call_depth (all_calls (split_and_approximate_calls 1 s_start s_end 0)) = [0, 1, 1]"
    by (simp add: calls_s)
  have "split_and_approximate_calls 1 s_start s_end 0 \<in>
          set (all_calls (split_and_approximate_calls 1 s_start s_end 0))"
    by (simp add: calls_s)
  with t have b: "call_ok 1 (split_and_approximate_calls 1 s_start s_end 0)"
    by simp
  have l: "map subcalls (subcalls (split_and_approximate_calls 1 s_start s_end 0)) = [[], []]"
    by (simp add: calls_s)
  from t have "biarc_approximation s_start s_end 1 =
      call_result (split_and_approximate_calls 1 s_start s_end 0)"
    by simp
  then have c: "biarc_approximation s_start s_end 1 = [Line (0, 0) (5, 0), Line (5, 0) (10, 0)]"
    by (simp add: calls_s)
  from a b l c show ?thesis by simp
qed


section \<open>What a successful biarc fit returns\<close>

text \<open>
  A primitive is \<open>zero_arc\<close> when it is a line, or an arc that stores the angle
  \<open>0\<close> and, as its centre, the midpoint of its own start and end.
\<close>

definition zero_arc :: "primitive \<Rightarrow> bool" where
  "zero_arc p = (case p of Line s e \<Rightarrow> True
                 | Arc s e c a \<Rightarrow> a = 0 \<and> c = P_truediv (P_add s e) 2)"

lemma fit_biarc_Some:
  "fit_biarc sp1 sp2 = Some prims \<Longrightarrow>
   prims = [Arc (node sp1) (P_add (node sp1) (P_mul (P_sub (node sp2) (node sp1)) (1 / 2)))
              (P_truediv (P_add (node sp1)
                 (P_add (node sp1) (P_mul (P_sub (node sp2) (node sp1)) (1 / 2)))) 2) 0,
            Arc (P_add (node sp1) (P_mul (P_sub (node sp2) (node sp1)) (1 / 2))) (node sp2)
              (P_truediv (P_add
                 (P_add (node sp1) (P_mul (P_sub (node sp2) (node sp1)) (1 / 2))) (node sp2)) 2) 0]"
  by (simp add: fit_biarc_def Let_def split: if_splits)

lemma fit_biarc_zero_arc:
  "fit_biarc sp1 sp2 = Some prims \<Longrightarrow> p \<in> set prims \<Longrightarrow> zero_arc p"
  by (drule fit_biarc_Some) (auto simp: zero_arc_def)

lemma no_split_result:
  "\<not> must_split max_depth sp1 sp2 depth \<Longrightarrow>
   split_and_approximate max_depth sp1 sp2 depth = [Line (node sp1) (node sp2)] \<or>
   fit_biarc sp1 sp2 = Some (split_and_approximate max_depth sp1 sp2 depth)"
  by (subst (1 2) split_and_approximate.simps)
     (auto simp add: must_split_def Let_def truthy_def split: option.splits)

lemma split_and_approximate_zero_arc:
  "\<forall>p \<in> set (split_and_approximate max_depth sp1 sp2 depth). zero_arc p"
proof (induction max_depth sp1 sp2 depth rule: split_induct)
  case (1 max_depth sp1 sp2 depth)
  show ?case
  proof (cases "must_split max_depth sp1 sp2 depth")
    case True
    with 1 show ?thesis by (simp add: split_and_approximate_split) blast
  next
    case False
    from no_split_result[OF False] show ?thesis
    proof
      assume "split_and_approximate max_depth sp1 sp2 depth = [Line (node sp1) (node sp2)]"
      then show ?thesis by (simp add: zero_arc_def)
    next
      assume "fit_biarc sp1 sp2 = Some (split_and_approximate max_depth sp1 sp2 depth)"
      then show ?thesis using fit_biarc_zero_arc by blast
    qed
  qed
qed

definition emitted_words :: "string set" where
  "emitted_words = {''G0'', ''G1'', ''G03'', ''M03'', ''M05''}"

lemma arc_gcode_word: "zero_arc p \<Longrightarrow> word (arc_gcode cfg p) \<in> {''G1'', ''G03''}"
  by (cases p) (simp_all add: arc_gcode_def zero_arc_def Let_def)

lemma segment_gcode_words:
  "curve_mode cfg = ''biarc'' \<Longrightarrow> l \<in> set (segment_gcode cfg sp1 sp2) \<Longrightarrow>
   word l \<in> {''G1'', ''G03''}"
proof -
  assume "curve_mode cfg = ''biarc''" "l \<in> set (segment_gcode cfg sp1 sp2)"
  then obtain p where "p \<in> set (split_and_approximate (biarc_max_split_depth cfg) sp1 sp2 0)"
    and "l = arc_gcode cfg p"
    by (auto simp: segment_gcode_def biarc_approximation_def)
  then show ?thesis
    using split_and_approximate_zero_arc arc_gcode_word by blast
qed

lemma segments_gcode_words:
  "curve_mode cfg = ''biarc'' \<Longrightarrow> l \<in> set (segments_gcode cfg subpath) \<Longrightarrow>
   word l \<in> {''G1'', ''G03''}"
proof (induction cfg subpath rule: segments_gcode.induct)
  case (1 cfg sp1 sp2 rest)
  then show ?case using segment_gcode_words by auto
qed simp_all

lemma subpath_gcode_words:
  "curve_mode cfg = ''biarc'' \<Longrightarrow> l \<in> set (subpath_gcode cfg subpath) \<Longrightarrow>
   word l \<in> emitted_words"
  using segments_gcode_words[of cfg l subpath]
  by (auto simp: subpath_gcode_def emitted_words_def gcode_before_path_def gcode_after_path_def
        Let_def split: if_splits)

text \<open>
  A segment on which the fit succeeds: control points \<open>(0,0)\<close>, \<open>(3,4)\<close>,
  \<open>(7,4)\<close>, \<open>(10,0)\<close>; both tangents have length \<open>5\<close> and are not parallel.
\<close>

definition arch_start :: anchor where
  "arch_start = \<lparr>handle_in = (0, 0), node = (0, 0), handle_out = (3, 4)\<rparr>"

definition arch_end :: anchor where
  "arch_end = \<lparr>handle_in = (7, 4), node = (10, 0), handle_out = (10, 0)\<rparr>"

definition biarc_cfg :: settings where
  "biarc_cfg = \<lparr>px_per_mm = 1, page_height_px = 0, curve_mode = ''biarc'',
     polyline_segments = 24, biarc_max_split_depth = 4, feed = 30\<rparr>"

lemma fit_biarc_arch:
  "fit_biarc arch_start arch_end =
     Some [Arc (0, 0) (5, 0) (5 / 2, 0) 0, Arc (5, 0) (10, 0) (15 / 2, 0) 0]"
  by (simp add: fit_biarc_def arch_start_def arch_end_def P_sub_def P_add_def P_mul_def
        mag_def unit_def P_truediv_def Let_def sqrt_25)

lemma biarc_approximation_arch:
  "biarc_approximation arch_start arch_end 4 =
     [Arc (0, 0) (5, 0) (5 / 2, 0) 0, Arc (5, 0) (10, 0) (15 / 2, 0) 0]"
  unfolding biarc_approximation_def
  by (subst split_and_approximate.simps)
     (simp add: fit_biarc_arch truthy_def Let_def, simp add: arch_start_def arch_end_def sqrt_100)

lemma path_to_gcode_arch:
  "path_to_gcode biarc_cfg [[arch_start, arch_end]] =
     Inr [GLine ''G0'' [(CHR ''X'', 0), (CHR ''Y'', 0)], GLine ''M03'' [],
          GLine ''G03'' [(CHR ''X'', 5), (CHR ''Y'', 0), (CHR ''I'', 5 / 2), (CHR ''J'', 0)],
          GLine ''G03'' [(CHR ''X'', 10), (CHR ''Y'', 0), (CHR ''I'', 5 / 2), (CHR ''J'', 0)],
          GLine ''M05'' []]"
  by (simp add: path_to_gcode_def subpath_gcode_def segment_gcode_def biarc_cfg_def
        biarc_approximation_arch[unfolded arch_start_def arch_end_def]
        arch_start_def arch_end_def arc_gcode_def gcode_before_path_def gcode_after_path_def Let_def)

text \<open>
  C10. Every primitive of a successful fit is an arc with stored angle \<open>0\<close>
  whose stored centre is the midpoint of its own start and end; every primitive
  of a biarc approximation is a line or such an arc; so in biarc mode the
  direction test \<^verbatim>\<open>arc['angle'] < 0\<close> never holds, no line of the output
  has the word \<^verbatim>\<open>G02\<close>, and every arc command is \<^verbatim>\<open>G03\<close>.
\<close>

theorem fitted_arcs_counterclockwise:
  "(\<forall>prims. fit_biarc sp1 sp2 = Some prims \<longrightarrow>
      (\<forall>p \<in> set prims. \<exists>s e. p = Arc s e (P_truediv (P_add s e) 2) 0)) \<and>
   (\<forall>p \<in> set (biarc_approximation sp1 sp2 max_depth). zero_arc p) \<and>
   (\<forall>out. curve_mode cfg = ''biarc'' \<and> path_to_gcode cfg csp = Inr out \<longrightarrow>
      (\<forall>l \<in> set out. word l \<in> emitted_words \<and> word l \<noteq> ''G02''))"
proof (intro conjI allI impI ballI)
  fix prims p assume f: "fit_biarc sp1 sp2 = Some prims" and p: "p \<in> set prims"
  from p show "\<exists>s e. p = Arc s e (P_truediv (P_add s e) 2) 0"
    unfolding fit_biarc_Some[OF f] set_simps insert_iff empty_iff by blast
next
  fix p assume "p \<in> set (biarc_approximation sp1 sp2 max_depth)"
  then show "zero_arc p"
    using split_and_approximate_zero_arc by (simp add: biarc_approximation_def)
next
  fix out l
  assume a: "curve_mode cfg = ''biarc'' \<and> path_to_gcode cfg csp = Inr out" and l: "l \<in> set out"
  then have "out = concat (map (subpath_gcode cfg) csp)"
    by (simp add: path_to_gcode_def split: if_splits)
  with l obtain subpath where "l \<in> set (subpath_gcode cfg subpath)" by auto
  with a show "word l \<in> emitted_words" using subpath_gcode_words by blast
  then show "word l \<noteq> ''G02''" by (auto simp: emitted_words_def)
qed


theorem fitted_arcs_counterclockwise_witness:
  "fit_biarc arch_start arch_end =
     Some [Arc (0, 0) (5, 0) (5 / 2, 0) 0, Arc (5, 0) (10, 0) (15 / 2, 0) 0] \<and>
   (5 / 2, 0) = P_truediv (P_add (0, 0) (5, 0)) 2 \<and>
   (15 / 2, 0) = P_truediv (P_add (5, 0) (10, 0)) 2 \<and>
   zero_arc (Arc (0, 0) (5, 0) (5 / 2, 0) 0) \<and>
   zero_arc (Arc (5, 0) (10, 0) (15 / 2, 0) 0) \<and>
   curve_mode biarc_cfg = ''biarc'' \<and>
   path_to_gcode biarc_cfg [[arch_start, arch_end]] =
     Inr [GLine ''G0'' [(CHR ''X'', 0), (CHR ''Y'', 0)], GLine ''M03'' [],
          GLine ''G03'' [(CHR ''X'', 5), (CHR ''Y'', 0), (CHR ''I'', 5 / 2), (CHR ''J'', 0)],
          GLine ''G03'' [(CHR ''X'', 10), (CHR ''Y'', 0), (CHR ''I'', 5 / 2), (CHR ''J'', 0)],
          GLine ''M05'' []] \<and>
   word (GLine ''G03'' [(CHR ''X'', 5), (CHR ''Y'', 0), (CHR ''I'', 5 / 2), (CHR ''J'', 0)])
     \<noteq> ''G02''"
proof -
  note t = fitted_arcs_counterclockwise[of arch_start arch_end 4 biarc_cfg
      "[[arch_start, arch_end]]"]
  have m: "curve_mode biarc_cfg = ''biarc''" by (simp add: biarc_cfg_def)
  have c: "(5 / 2, 0) = P_truediv (P_add (0, 0) (5, 0)) 2"
    "(15 / 2, 0) = P_truediv (P_add (5, 0) (10, 0)) 2"
    by (simp_all add: P_truediv_def P_add_def)
  from t have "\<forall>p \<in> set (biarc_approximation arch_start arch_end 4). zero_arc p"
    by blast
  then have z: "zero_arc (Arc (0, 0) (5, 0) (5 / 2, 0) 0)"
    "zero_arc (Arc (5, 0) (10, 0) (15 / 2, 0) 0)"
    by (simp_all add: biarc_approximation_arch)
  from t m path_to_gcode_arch have
    "\<forall>l \<in> set [GLine ''G0'' [(CHR ''X'', 0), (CHR ''Y'', 0)], GLine ''M03'' [],
          GLine ''G03'' [(CHR ''X'', 5), (CHR ''Y'', 0), (CHR ''I'', 5 / 2), (CHR ''J'', 0)],
          GLine ''G03'' [(CHR ''X'', 10), (CHR ''Y'', 0), (CHR ''I'', 5 / 2), (CHR ''J'', 0)],
          GLine ''M05'' []]. word l \<noteq> ''G02''"
    by blast
  then have w:
    "word (GLine ''G03'' [(CHR ''X'', 5), (CHR ''Y'', 0), (CHR ''I'', 5 / 2), (CHR ''J'', 0)])
       \<noteq> ''G02''"
    by simp
  from fit_biarc_arch c z m path_to_gcode_arch w show ?thesis by blast
qed


text \<open>
  The tangency the specification asks of a fitted arc: the arc, a piece of the
  circle about its stored centre, passes through \<open>p\<close> as its start or end, and
  the radius to \<open>p\<close> is perpendicular to the direction \<open>T\<close>.
\<close>

definition arc_tangent_at :: "primitive \<Rightarrow> point \<Rightarrow> point \<Rightarrow> bool" where
  "arc_tangent_at arc p T =
     (case arc of Line s e \<Rightarrow> False
      | Arc s e c a \<Rightarrow> (p = s \<or> p = e) \<and> P_dot (P_sub p c) T = 0)"

text \<open>
  C1. On the segment \<open>(0,0)\<close>, \<open>(3,4)\<close>, \<open>(7,4)\<close>, \<open>(10,0)\<close> the fit succeeds and
  returns two arcs joined at the chord midpoint \<open>(5,0)\<close>, with centres
  \<open>(5/2,0)\<close> and \<open>(15/2,0)\<close> on the chord and stored angle \<open>0\<close>. The unit
  tangents are \<open>T0 = (3/5,4/5)\<close> and \<open>T3 = (3/5,-4/5)\<close>; the first arc is not
  tangent to \<open>T0\<close> at \<open>P0\<close> and the second is not tangent to \<open>T3\<close> at \<open>P3\<close>.
\<close>

theorem fit_biarc_not_tangent:
  "fit_biarc arch_start arch_end =
     Some [Arc (0, 0) (5, 0) (5 / 2, 0) 0, Arc (5, 0) (10, 0) (15 / 2, 0) 0] \<and>
   unit (P_sub (handle_out arch_start) (node arch_start)) = (3 / 5, 4 / 5) \<and>
   unit (P_sub (node arch_end) (handle_in arch_end)) = (3 / 5, - (4 / 5)) \<and>
   \<not> arc_tangent_at (Arc (0, 0) (5, 0) (5 / 2, 0) 0) (node arch_start) (3 / 5, 4 / 5) \<and>
   \<not> arc_tangent_at (Arc (5, 0) (10, 0) (15 / 2, 0) 0) (node arch_end) (3 / 5, - (4 / 5))"
  by (simp add: fit_biarc_arch arc_tangent_at_def)
     (simp add: arch_start_def arch_end_def unit_def mag_def P_sub_def P_dot_def P_truediv_def
        sqrt_25)



section \<open>Polyline mode\<close>

text \<open>
  The \<^verbatim>\<open>G1\<close> line whose target is the point \<open>p\<close>, written as the emitter
  writes every target: \<open>X = x / px_per_mm\<close> and
  \<open>Y = (page_height_px - y) / px_per_mm\<close>, followed by the feed.
\<close>

definition linear_move :: "settings \<Rightarrow> point \<Rightarrow> gline" where
  "linear_move cfg p =
     GLine ''G1'' [(CHR ''X'', fst p / px_per_mm cfg),
                   (CHR ''Y'', (page_height_px cfg - snd p) / px_per_mm cfg),
                   (CHR ''F'', of_int (feed cfg))]"

text \<open>
  An anchor whose handles coincide with its point, and the settings used in the
  examples: polyline mode, one pixel per millimetre, page height \<open>0\<close>, feed
  \<open>30\<close>, with the configured sample count as the parameter.
\<close>

definition straight :: "point \<Rightarrow> anchor" where
  "straight p = \<lparr>handle_in = p, node = p, handle_out = p\<rparr>"

definition polyline_cfg :: "int \<Rightarrow> settings" where
  "polyline_cfg n = \<lparr>px_per_mm = 1, page_height_px = 0, curve_mode = ''polyline'',
     polyline_segments = n, biarc_max_split_depth = 4, feed = 30\<rparr>"

lemma upto_1_2: "[1..2::int] = [1, 2]"
  by (simp add: upto.simps)

lemma upto_1_4: "[1..4::int] = [1, 2, 3, 4]"
  by (simp add: upto.simps)

text \<open>
  C7. In polyline mode with a configured sample count \<open>n \<ge> 2\<close>, one segment
  gives exactly \<open>n\<close> linear moves, in order, the \<open>k\<close>-th one targeting the point
  \<open>csp_at_t\<close> of the segment at \<open>k / n\<close> for \<open>k = 1, \<dots>, n\<close> (written in output
  coordinates; the start point is not emitted); with \<open>n = 4\<close> the targets are the
  points at \<open>1/4\<close>, \<open>2/4\<close>, \<open>3/4\<close> and \<open>1\<close>.
\<close>

theorem polyline_samples:
  "curve_mode cfg \<noteq> ''biarc'' \<and> 2 \<le> polyline_segments cfg \<longrightarrow>
     segment_gcode cfg sp1 sp2 =
       map (\<lambda>k. linear_move cfg
                  (csp_at_t sp1 sp2 (of_int k / of_int (polyline_segments cfg))))
         [1..polyline_segments cfg] \<and>
     int (length (segment_gcode cfg sp1 sp2)) = polyline_segments cfg \<and>
     (polyline_segments cfg = 4 \<longrightarrow>
        segment_gcode cfg sp1 sp2 =
          [linear_move cfg (csp_at_t sp1 sp2 (1 / 4)),
           linear_move cfg (csp_at_t sp1 sp2 (2 / 4)),
           linear_move cfg (csp_at_t sp1 sp2 (3 / 4)),
           linear_move cfg (csp_at_t sp1 sp2 1)])"
  by (simp add: segment_gcode_def poly_segments_def linear_move_def Let_def upto_1_4)

theorem polyline_samples_witness:
  "curve_mode (polyline_cfg 4) \<noteq> ''biarc'' \<and> 2 \<le> polyline_segments (polyline_cfg 4) \<and>
   segment_gcode (polyline_cfg 4) (straight (0, 0)) (straight (10, 0)) =
     [linear_move (polyline_cfg 4) (csp_at_t (straight (0, 0)) (straight (10, 0)) (1 / 4)),
      linear_move (polyline_cfg 4) (csp_at_t (straight (0, 0)) (straight (10, 0)) (2 / 4)),
      linear_move (polyline_cfg 4) (csp_at_t (straight (0, 0)) (straight (10, 0)) (3 / 4)),
      linear_move (polyline_cfg 4) (csp_at_t (straight (0, 0)) (straight (10, 0)) 1)] \<and>
   segment_gcode (polyline_cfg 4) (straight (0, 0)) (straight (10, 0)) =
     [GLine ''G1'' [(CHR ''X'', 25 / 16), (CHR ''Y'', 0), (CHR ''F'', 30)],
      GLine ''G1'' [(CHR ''X'', 5), (CHR ''Y'', 0), (CHR ''F'', 30)],
      GLine ''G1'' [(CHR ''X'', 135 / 16), (CHR ''Y'', 0), (CHR ''F'', 30)],
      GLine ''G1'' [(CHR ''X'', 10), (CHR ''Y'', 0), (CHR ''F'', 30)]]"
proof -
  have h: "curve_mode (polyline_cfg 4) \<noteq> ''biarc'' \<and> 2 \<le> polyline_segments (polyline_cfg 4)"
    and n: "polyline_segments (polyline_cfg 4) = 4"
    by (simp_all add: polyline_cfg_def)
  from polyline_samples[of "polyline_cfg 4" "straight (0, 0)" "straight (10, 0)"] h n
  have s: "segment_gcode (polyline_cfg 4) (straight (0, 0)) (straight (10, 0)) =
     [linear_move (polyline_cfg 4) (csp_at_t (straight (0, 0)) (straight (10, 0)) (1 / 4)),
      linear_move (polyline_cfg 4) (csp_at_t (straight (0, 0)) (straight (10, 0)) (2 / 4)),
      linear_move (polyline_cfg 4) (csp_at_t (straight (0, 0)) (straight (10, 0)) (3 / 4)),
      linear_move (polyline_cfg 4) (csp_at_t (straight (0, 0)) (straight (10, 0)) 1)]"
    by blast
  have v: "[linear_move (polyline_cfg 4) (csp_at_t (straight (0, 0)) (straight (10, 0)) (1 / 4)),
      linear_move (polyline_cfg 4) (csp_at_t (straight (0, 0)) (straight (10, 0)) (2 / 4)),
      linear_move (polyline_cfg 4) (csp_at_t (straight (0, 0)) (straight (10, 0)) (3 / 4)),
      linear_move (polyline_cfg 4) (csp_at_t (straight (0, 0)) (straight (10, 0)) 1)] =
     [GLine ''G1'' [(CHR ''X'', 25 / 16), (CHR ''Y'', 0), (CHR ''F'', 30)],
      GLine ''G1'' [(CHR ''X'', 5), (CHR ''Y'', 0), (CHR ''F'', 30)],
      GLine ''G1'' [(CHR ''X'', 135 / 16), (CHR ''Y'', 0), (CHR ''F'', 30)],
      GLine ''G1'' [(CHR ''X'', 10), (CHR ''Y'', 0), (CHR ''F'', 30)]]"
    by (simp add: linear_move_def polyline_cfg_def straight_def csp_at_t_def
          csp_parameterize_def bezier_parameterize_def Let_def power2_eq_square power3_eq_cube)
  from h s v show ?thesis by simp
qed

text \<open>
  C8, as stated, fails: with the configured sample count \<open>1\<close> the output for the
  straight subpath from \<open>(0,0)\<close> to \<open>(10,0)\<close> is not the four-command sequence.
\<close>

theorem single_sample_counterexample:
  "path_to_gcode (polyline_cfg 1) [[straight (0, 0), straight (10, 0)]] \<noteq>
     Inr [GLine ''G0'' [(CHR ''X'', 0), (CHR ''Y'', 0)], GLine ''M03'' [],
          GLine ''G1'' [(CHR ''X'', 10), (CHR ''Y'', 0), (CHR ''F'', 30)],
          GLine ''M05'' []]"
  by (simp add: path_to_gcode_def subpath_gcode_def segment_gcode_def poly_segments_def
        polyline_cfg_def straight_def upto_1_2 gcode_before_path_def gcode_after_path_def Let_def)

text \<open>
  C8, amended. The sample count is \<^verbatim>\<open>max(2, n)\<close>, so with the configured count
  \<open>1\<close> the segment is sampled twice: the output is the rapid move to \<open>(0,0)\<close>,
  tool-on, a linear move to the curve point at \<open>t = 1/2\<close>, which is \<open>(5,0)\<close>, a
  linear move to \<open>(10,0)\<close>, both at feed \<open>30\<close>, and tool-off (with one pixel per
  millimetre and page height \<open>0\<close>, so that output and input coordinates agree on
  this subpath).
\<close>

theorem single_sample_clamped:
  "path_to_gcode (polyline_cfg 1) [[straight (0, 0), straight (10, 0)]] =
     Inr [GLine ''G0'' [(CHR ''X'', 0), (CHR ''Y'', 0)], GLine ''M03'' [],
          GLine ''G1'' [(CHR ''X'', 5), (CHR ''Y'', 0), (CHR ''F'', 30)],
          GLine ''G1'' [(CHR ''X'', 10), (CHR ''Y'', 0), (CHR ''F'', 30)],
          GLine ''M05'' []]"
  by (simp add: path_to_gcode_def subpath_gcode_def segment_gcode_def poly_segments_def
        polyline_cfg_def straight_def upto_1_2 gcode_before_path_def gcode_after_path_def Let_def
        csp_at_t_def csp_parameterize_def bezier_parameterize_def power2_eq_square power3_eq_cube)


section \<open>Coordinate fields of the emitted lines\<close>

text \<open>
  \<open>within_eps cur v\<close>: a coordinate is stored for the axis and \<open>v\<close> is within
  \<open>1e-6\<close> of it. \<open>has_xy\<close>: the line starts with an \<open>X\<close> and a \<open>Y\<close> field.
  \<open>repeats_axis a l1 l2\<close>: both lines carry a field for axis \<open>a\<close>, with
  values within \<open>1e-6\<close> of each other.
\<close>

definition within_eps :: "real option \<Rightarrow> real \<Rightarrow> bool" where
  "within_eps cur v = (case cur of None \<Rightarrow> False | Some c \<Rightarrow> \<bar>v - c\<bar> \<le> 1 / 10 ^ 6)"

definition has_xy :: "gline \<Rightarrow> bool" where
  "has_xy l = (case params l of (a, x) # (b, y) # rest \<Rightarrow> a = CHR ''X'' \<and> b = CHR ''Y''
               | _ \<Rightarrow> False)"

definition repeats_axis :: "char \<Rightarrow> gline \<Rightarrow> gline \<Rightarrow> bool" where
  "repeats_axis a l1 l2 =
     (case (map_of (params l1) a, map_of (params l2) a) of
        (Some v, Some w) \<Rightarrow> \<bar>w - v\<bar> \<le> 1 / 10 ^ 6
      | _ \<Rightarrow> False)"

lemma move_to_eq:
  "move_to self x y rapid =
     (GLine (if rapid then ''G0'' else ''G1'')
        ((if within_eps (current_x self) x then [] else [(CHR ''X'', x)]) @
         (if within_eps (current_y self) y then [] else [(CHR ''Y'', y)])),
      self\<lparr>current_x := (if within_eps (current_x self) x then current_x self else Some x),
           current_y := (if within_eps (current_y self) y then current_y self else Some y)\<rparr>)"
  by (cases "current_x self"; cases "current_y self")
     (auto simp add: move_to_def within_eps_def Let_def)

lemma arc_gcode_has_xy: "has_xy (arc_gcode cfg p)"
  by (cases p) (simp_all add: arc_gcode_def has_xy_def Let_def)

lemma segment_gcode_has_xy: "l \<in> set (segment_gcode cfg sp1 sp2) \<Longrightarrow> has_xy l"
proof (cases "curve_mode cfg = ''biarc''")
  case True
  assume "l \<in> set (segment_gcode cfg sp1 sp2)"
  with True obtain p where "l = arc_gcode cfg p" by (auto simp: segment_gcode_def)
  then show ?thesis by (simp add: arc_gcode_has_xy)
next
  case False
  assume "l \<in> set (segment_gcode cfg sp1 sp2)"
  with False show ?thesis by (auto simp: segment_gcode_def has_xy_def Let_def)
qed

lemma segments_gcode_has_xy: "l \<in> set (segments_gcode cfg subpath) \<Longrightarrow> has_xy l"
proof (induction cfg subpath rule: segments_gcode.induct)
  case (1 cfg sp1 sp2 rest)
  then show ?case using segment_gcode_has_xy by auto
qed simp_all

lemma subpath_gcode_has_xy:
  "l \<in> set (subpath_gcode cfg subpath) \<Longrightarrow>
   l = gcode_before_path \<or> l = gcode_after_path \<or> has_xy l"
  using segments_gcode_has_xy[of l cfg subpath]
  by (auto simp: subpath_gcode_def has_xy_def Let_def split: if_splits)

text \<open>
  C9, as stated, fails. The lines \<^verbatim>\<open>_path_to_gcode\<close> produces are not built
  by \<open>move_to\<close>: for the straight subpath from \<open>(0,0)\<close> to \<open>(20,0)\<close> both
  linear moves carry \<open>Y0\<close> although \<open>Y\<close> did not change. And when \<open>move_to\<close>
  omits a field, it leaves the stored coordinate as it was: after a move from
  \<open>x = 0\<close> to \<open>x = 0.0000005\<close> the stored \<open>x\<close> is still \<open>0\<close>.
\<close>

theorem emitter_repeats_unchanged_axis:
  "path_to_gcode (polyline_cfg 2) [[straight (0, 0), straight (20, 0)]] =
     Inr [GLine ''G0'' [(CHR ''X'', 0), (CHR ''Y'', 0)], GLine ''M03'' [],
          GLine ''G1'' [(CHR ''X'', 10), (CHR ''Y'', 0), (CHR ''F'', 30)],
          GLine ''G1'' [(CHR ''X'', 20), (CHR ''Y'', 0), (CHR ''F'', 30)],
          GLine ''M05'' []] \<and>
   repeats_axis (CHR ''Y'')
     (GLine ''G1'' [(CHR ''X'', 10), (CHR ''Y'', 0), (CHR ''F'', 30)])
     (GLine ''G1'' [(CHR ''X'', 20), (CHR ''Y'', 0), (CHR ''F'', 30)]) \<and>
   fst (move_to \<lparr>current_x = Some 0, current_y = Some 0\<rparr> (1 / 2000000) 0 False) =
     GLine ''G1'' [] \<and>
   current_x (snd (move_to \<lparr>current_x = Some 0, current_y = Some 0\<rparr> (1 / 2000000) 0 False))
     \<noteq> Some (1 / 2000000)"
  by (simp add: path_to_gcode_def subpath_gcode_def segment_gcode_def poly_segments_def
        polyline_cfg_def straight_def upto_1_2 gcode_before_path_def gcode_after_path_def Let_def
        csp_at_t_def csp_parameterize_def bezier_parameterize_def power2_eq_square power3_eq_cube
        repeats_axis_def move_to_def)

text \<open>
  C9, amended. \<open>move_to\<close> omits the field of an axis exactly when a coordinate
  is stored for that axis and the target is within \<open>1e-6\<close> of it, and then keeps
  the stored coordinate; otherwise it writes the field and stores the target.
  Every line of \<^verbatim>\<open>_path_to_gcode\<close> other than tool-on and tool-off starts
  with both an \<open>X\<close> and a \<open>Y\<close> field.
\<close>

theorem move_to_dedup:
  "move_to self x y rapid =
     (GLine (if rapid then ''G0'' else ''G1'')
        ((if within_eps (current_x self) x then [] else [(CHR ''X'', x)]) @
         (if within_eps (current_y self) y then [] else [(CHR ''Y'', y)])),
      self\<lparr>current_x := (if within_eps (current_x self) x then current_x self else Some x),
           current_y := (if within_eps (current_y self) y then current_y self else Some y)\<rparr>) \<and>
   (\<forall>out. path_to_gcode cfg csp = Inr out \<longrightarrow>
      (\<forall>l \<in> set out. l = gcode_before_path \<or> l = gcode_after_path \<or> has_xy l))"
proof (intro conjI allI impI ballI)
  show "move_to self x y rapid =
     (GLine (if rapid then ''G0'' else ''G1'')
        ((if within_eps (current_x self) x then [] else [(CHR ''X'', x)]) @
         (if within_eps (current_y self) y then [] else [(CHR ''Y'', y)])),
      self\<lparr>current_x := (if within_eps (current_x self) x then current_x self else Some x),
           current_y := (if within_eps (current_y self) y then current_y self else Some y)\<rparr>)"
    by (rule move_to_eq)
next
  fix out l
  assume a: "path_to_gcode cfg csp = Inr out" and l: "l \<in> set out"
  then have "out = concat (map (subpath_gcode cfg) csp)"
    by (simp add: path_to_gcode_def split: if_splits)
  with l obtain subpath where "l \<in> set (subpath_gcode cfg subpath)" by auto
  then show "l = gcode_before_path \<or> l = gcode_after_path \<or> has_xy l"
    by (rule subpath_gcode_has_xy)
qed

theorem move_to_dedup_witness:
  "move_to \<lparr>current_x = Some 0, current_y = Some 0\<rparr> 5 0 False =
     (GLine ''G1'' [(CHR ''X'', 5)], \<lparr>current_x = Some 5, current_y = Some 0\<rparr>) \<and>
   path_to_gcode (polyline_cfg 2) [[straight (0, 0), straight (20, 0)]] =
     Inr [GLine ''G0'' [(CHR ''X'', 0), (CHR ''Y'', 0)], GLine ''M03'' [],
          GLine ''G1'' [(CHR ''X'', 10), (CHR ''Y'', 0), (CHR ''F'', 30)],
          GLine ''G1'' [(CHR ''X'', 20), (CHR ''Y'', 0), (CHR ''F'', 30)],
          GLine ''M05'' []] \<and>
   has_xy (GLine ''G0'' [(CHR ''X'', 0), (CHR ''Y'', 0)]) \<and>
   has_xy (GLine ''G1'' [(CHR ''X'', 10), (CHR ''Y'', 0), (CHR ''F'', 30)]) \<and>
   has_xy (GLine ''G1'' [(CHR ''X'', 20), (CHR ''Y'', 0), (CHR ''F'', 30)])"
proof -
  note t = move_to_dedup[of "\<lparr>current_x = Some 0, current_y = Some 0\<rparr>" 5 0 False
      "polyline_cfg 2" "[[straight (0, 0), straight (20, 0)]]"]
  have p: "path_to_gcode (polyline_cfg 2) [[straight (0, 0), straight (20, 0)]] =
     Inr [GLine ''G0'' [(CHR ''X'', 0), (CHR ''Y'', 0)], GLine ''M03'' [],
          GLine ''G1'' [(CHR ''X'', 10), (CHR ''Y'', 0), (CHR ''F'', 30)],
          GLine ''G1'' [(CHR ''X'', 20), (CHR ''Y'', 0), (CHR ''F'', 30)],
          GLine ''M05'' []]"
    by (simp add: path_to_gcode_def subpath_gcode_def segment_gcode_def poly_segments_def
        polyline_cfg_def straight_def upto_1_2 gcode_before_path_def gcode_after_path_def Let_def
        csp_at_t_def csp_parameterize_def bezier_parameterize_def power2_eq_square power3_eq_cube)
  from t have m: "move_to \<lparr>current_x = Some 0, current_y = Some 0\<rparr> 5 0 False =
     (GLine ''G1'' [(CHR ''X'', 5)], \<lparr>current_x = Some 5, current_y = Some 0\<rparr>)"
    by (simp add: within_eps_def)
  from t p have q: "\<forall>l \<in> set [GLine ''G0'' [(CHR ''X'', 0), (CHR ''Y'', 0)], GLine ''M03'' [],
          GLine ''G1'' [(CHR ''X'', 10), (CHR ''Y'', 0), (CHR ''F'', 30)],
          GLine ''G1'' [(CHR ''X'', 20), (CHR ''Y'', 0), (CHR ''F'', 30)],
          GLine ''M05'' []].
      l = gcode_before_path \<or> l = gcode_after_path \<or> has_xy l"
    by blast
  then have h: "has_xy (GLine ''G0'' [(CHR ''X'', 0), (CHR ''Y'', 0)])"
    "has_xy (GLine ''G1'' [(CHR ''X'', 10), (CHR ''Y'', 0), (CHR ''F'', 30)])"
    "has_xy (GLine ''G1'' [(CHR ''X'', 20), (CHR ''Y'', 0), (CHR ''F'', 30)])"
    by (simp_all add: gcode_before_path_def gcode_after_path_def)
  from m p h show ?thesis by blast
qed



section \<open>Calibration lookup\<close>

text \<open>
  \<open>layer_chain\<close>: the queried element followed by the layers above it, nearest
  first. \<open>applicable_calibration\<close>: the first group of the nearest element of
  that chain that has calibrations. \<open>coincide\<close>: the first two drawing points
  are less than \<open>1e-6\<close> apart. \<open>overflow\<close>: one of the four coordinate
  differences of the first two correspondences has a square out of float range.
  \<open>solve\<close>: what the computation gives from the first two correspondences.
  \<open>groups_ok\<close>: every stored list of groups is non-empty and every group has
  two or three points. \<open>cache_ok\<close>: a cached transform of the queried layer is
  the one computed from the calibrations now stored.
\<close>

definition layer_chain :: "'l element \<Rightarrow> 'l element list" where
  "layer_chain layer = layer # filter groupmode_layer (ancestors layer)"

definition applicable_calibration ::
  "('l \<rightharpoonup> correspondence list list) \<Rightarrow> 'l element \<Rightarrow> correspondence list option" where
  "applicable_calibration ops layer =
     (case find (\<lambda>e. ops (ident e) \<noteq> None) (layer_chain layer) of
        None \<Rightarrow> None
      | Some e \<Rightarrow> (case ops (ident e) of Some (points # _) \<Rightarrow> Some points | _ \<Rightarrow> None))"

definition coincide :: "correspondence list \<Rightarrow> bool" where
  "coincide points =
     (case points of
        (svg1, _) # (svg2, _) # _ \<Rightarrow>
          sqrt ((fst svg2 - fst svg1)\<^sup>2 + (snd svg2 - snd svg1)\<^sup>2) < 1 / 10 ^ 6
      | _ \<Rightarrow> False)"

definition overflow :: "correspondence list \<Rightarrow> bool" where
  "overflow points =
     (case points of
        (svg1, (gx1, gy1, gz1)) # (svg2, (gx2, gy2, gz2)) # _ \<Rightarrow>
          sq_overflows (fst svg2 - fst svg1) \<or> sq_overflows (snd svg2 - snd svg1) \<or>
          sq_overflows (gx2 - gx1) \<or> sq_overflows (gy2 - gy1)
      | _ \<Rightarrow> False)"

definition solve :: "correspondence list \<Rightarrow> error + transform option" where
  "solve points = (case points of c1 # c2 # _ \<Rightarrow> calculate_transform c1 c2 | _ \<Rightarrow> Inr None)"

definition groups_ok :: "('l \<rightharpoonup> correspondence list list) \<Rightarrow> bool" where
  "groups_ok ops =
     (\<forall>l gs. ops l = Some gs \<longrightarrow> gs \<noteq> [] \<and> (\<forall>g \<in> set gs. length g = 2 \<or> length g = 3))"

definition cache_ok :: "'l orientation_manager \<Rightarrow> 'l element \<Rightarrow> bool" where
  "cache_ok self layer =
     (\<forall>t. transforms self (ident layer) = Some t \<longrightarrow>
        (\<exists>points. applicable_calibration (orientation_points self) layer = Some points \<and>
                  solve points = Inr (Some t)))"

lemma float_overflow_pos: "2 ^ 1000 < float_overflow"
  by (simp add: float_overflow_def)

lemma small_no_overflow: "\<bar>x\<bar> \<le> 2 ^ 500 \<Longrightarrow> \<not> sq_overflows x"
proof -
  assume a: "\<bar>x\<bar> \<le> 2 ^ 500"
  have "x\<^sup>2 = \<bar>x\<bar>\<^sup>2" by simp
  also from a have "\<dots> \<le> (2 ^ 500)\<^sup>2" by (intro power_mono) simp_all
  also have "\<dots> = (2::real) ^ 1000" by (simp add: power_mult[symmetric])
  finally show ?thesis using float_overflow_pos by (simp add: sq_overflows_def)
qed

lemma big_overflow: "sq_overflows (10 ^ 200)"
  by (simp add: sq_overflows_def float_overflow_def)

lemma apply_to_point_calls:
  "apply_to_point [Translate tx ty, Scale s s, Rotate (degrees r), Translate mx my] p =
   P_add (P_mul (P_rot (P_add p (mx, my)) r) s) (tx, ty)"
  by (simp add: apply_to_point_def transform_matrix_def matmul_def degrees_def
        P_add_def P_rot_def P_mul_def Let_def algebra_simps)

lemma sqrt_25_9: "sqrt (25 / 9) = 5 / 3"
  by (rule real_sqrt_unique) (simp_all add: power2_eq_square)

lemma cos_rot: "cos (pi / 2 - arctan (4 / 3)) = 4 / 5"
  by (simp add: cos_diff sin_arctan sqrt_25_9 power2_eq_square)

lemma sin_rot: "sin (pi / 2 - arctan (4 / 3)) = 3 / 5"
  by (simp add: sin_diff cos_arctan sqrt_25_9 power2_eq_square)

fun chain_from :: "'l element option \<Rightarrow> 'l element list" where
  "chain_from None = []"
| "chain_from (Some e) = e # filter groupmode_layer (ancestors e)"

lemma filter_ancestors:
  "filter groupmode_layer (case p of None \<Rightarrow> [] | Some e \<Rightarrow> e # ancestors e) =
   chain_from (first_layer p)"
proof (induction p rule: first_layer.induct)
  case 1
  then show ?case by simp
next
  case (2 i layer p)
  then show ?case by (cases p) auto
qed

lemma chain_parent:
  "filter groupmode_layer (ancestors current) = chain_from (get_parent_layer current)"
proof (cases current)
  case (Element i layer p)
  then show ?thesis
    using filter_ancestors[of p] by (cases p) (simp_all add: get_parent_layer_def)
qed

definition first_entry ::
  "('l \<rightharpoonup> correspondence list list) \<Rightarrow> 'l element list \<Rightarrow> correspondence list option" where
  "first_entry ops chain =
     (case find (\<lambda>e. ops (ident e) \<noteq> None) chain of
        None \<Rightarrow> None
      | Some e \<Rightarrow> (case ops (ident e) of Some (points # _) \<Rightarrow> Some points | _ \<Rightarrow> None))"

lemma lookup_points_chain:
  "groups_ok ops \<Longrightarrow> lookup_points ops c = Inr (first_entry ops (chain_from c))"
proof (induction ops c rule: lookup_points.induct)
  case (1 ops)
  then show ?case by (simp add: first_entry_def)
next
  case (2 ops current)
  show ?case
  proof (cases "ops (ident current)")
    case None
    with 2 show ?thesis by (simp add: first_entry_def chain_parent)
  next
    case (Some gs)
    with "2.prems" have "gs \<noteq> []" by (auto simp: groups_ok_def)
    then obtain g rest where "gs = g # rest" by (cases gs) auto
    with Some show ?thesis by (simp add: first_entry_def)
  qed
qed

lemma lookup_points_applicable:
  "groups_ok ops \<Longrightarrow> lookup_points ops (Some layer) = Inr (applicable_calibration ops layer)"
  by (simp add: lookup_points_chain first_entry_def applicable_calibration_def layer_chain_def
        del: lookup_points.simps)

lemma calculate_transform_overflow:
  "overflow ((svg1, g1) # (svg2, g2) # rest) \<Longrightarrow>
   calculate_transform (svg1, g1) (svg2, g2) = Inl OverflowError"
  by (cases g1; cases g2)
     (auto simp add: overflow_def calculate_transform_def pow2_def Let_def)

lemma calculate_transform_value:
  "\<not> overflow ((svg1, g1) # (svg2, g2) # rest) \<Longrightarrow>
   \<exists>r. calculate_transform (svg1, g1) (svg2, g2) = Inr r \<and>
       (r = None \<longleftrightarrow> coincide ((svg1, g1) # (svg2, g2) # rest))"
  by (cases g1; cases g2)
     (simp add: overflow_def calculate_transform_def pow2_def coincide_def Let_def)

lemma solve_overflow:
  "length points = 2 \<or> length points = 3 \<Longrightarrow> overflow points \<Longrightarrow>
   solve points = Inl OverflowError"
  by (auto simp: numeral_2_eq_2 numeral_3_eq_3 length_Suc_conv solve_def
        calculate_transform_overflow)

lemma solve_value:
  "length points = 2 \<or> length points = 3 \<Longrightarrow> \<not> overflow points \<Longrightarrow>
   \<exists>r. solve points = Inr r \<and> (r = None \<longleftrightarrow> coincide points)"
  using calculate_transform_value
  by (auto simp: numeral_2_eq_2 numeral_3_eq_3 length_Suc_conv solve_def)

lemma two_or_three:
  "length xs = 2 \<or> length xs = 3 \<Longrightarrow> \<exists>a b rest. xs = a # b # rest"
  by (auto simp: numeral_2_eq_2 numeral_3_eq_3 length_Suc_conv)

lemma applicable_None:
  "groups_ok ops \<Longrightarrow>
   applicable_calibration ops layer = None \<longleftrightarrow>
     (\<forall>e \<in> set (layer_chain layer). ops (ident e) = None)"
proof (cases "find (\<lambda>e. ops (ident e) \<noteq> None) (layer_chain layer)")
  case None
  then have "\<forall>e \<in> set (layer_chain layer). ops (ident e) = None"
    by (auto simp: find_None_iff)
  moreover have "applicable_calibration ops layer = None"
    unfolding applicable_calibration_def None by simp
  ultimately show ?thesis by simp
next
  case (Some e)
  assume ok: "groups_ok ops"
  from Some have e: "e \<in> set (layer_chain layer)" "ops (ident e) \<noteq> None"
    by (auto simp: find_Some_iff in_set_conv_nth)
  then obtain gs where gs: "ops (ident e) = Some gs" by auto
  with ok have "gs \<noteq> []" by (auto simp: groups_ok_def)
  then obtain g rest where "gs = g # rest" by (cases gs) auto
  with Some gs e show ?thesis by (auto simp: applicable_calibration_def)
qed

lemma applicable_length:
  "groups_ok ops \<Longrightarrow> applicable_calibration ops layer = Some points \<Longrightarrow>
   length points = 2 \<or> length points = 3"
  by (auto simp: applicable_calibration_def groups_ok_def split: option.splits list.splits)

lemma add_groups_ok: "groups_ok ops \<Longrightarrow> groups_ok (add_groups groups ops)"
proof (induction groups ops rule: add_groups.induct)
  case (1 ops)
  then show ?case by simp
next
  case (2 layer parsed groups ops)
  show ?case
  proof (cases "parse_orientation_group parsed")
    case None
    with 2 show ?thesis by simp
  next
    case (Some points)
    then have len: "length points = 2 \<or> length points = 3"
      by (auto simp: parse_orientation_group_def split: if_splits)
    then have ne: "points \<noteq> []" by auto
    have g: "groups_ok (ops(layer \<mapsto> (case ops layer of None \<Rightarrow> [] | Some gs \<Rightarrow> gs) @ [points]))"
      unfolding groups_ok_def
    proof (intro allI impI)
      fix l gs
      assume a: "(ops(layer \<mapsto> (case ops layer of None \<Rightarrow> [] | Some gs \<Rightarrow> gs) @ [points])) l
                   = Some gs"
      show "gs \<noteq> [] \<and> (\<forall>g \<in> set gs. length g = 2 \<or> length g = 3)"
      proof (cases "l = layer")
        case False
        with a have "ops l = Some gs" by simp
        with "2.prems" show ?thesis unfolding groups_ok_def by blast
      next
        case True
        show ?thesis
        proof (cases "ops layer")
          case None
          with a True len show ?thesis by auto
        next
          case (Some old)
          with "2.prems" have "\<forall>g \<in> set old. length g = 2 \<or> length g = 3"
            unfolding groups_ok_def by blast
          with a True Some len show ?thesis by auto
        qed
      qed
    qed
    have "groups_ok (add_groups groups
        (ops(layer \<mapsto> (case ops layer of None \<Rightarrow> [] | Some gs \<Rightarrow> gs) @ [points])))"
      using "2.IH"(3)[OF Some ne g] .
    with Some ne show ?thesis by simp
  qed
qed

lemma find_orientation_points_ok:
  "groups_ok (orientation_points (snd (find_orientation_points self groups)))"
  using add_groups_ok[of Map.empty groups]
  by (simp add: find_orientation_points_def Let_def groups_ok_def)

lemma get_transform_error:
  assumes ok: "groups_ok (orientation_points self)" and cache: "cache_ok self layer"
    and app: "applicable_calibration (orientation_points self) layer = Some points"
    and err: "solve points = Inl e"
  shows "get_transform_for_layer self layer = Inl e"
proof -
  have none: "transforms self (ident layer) = None"
  proof (cases "transforms self (ident layer)")
    case (Some t)
    with cache app err show ?thesis by (auto simp: cache_ok_def)
  qed simp
  from applicable_length[OF ok app] obtain c1 c2 rest where p: "points = c1 # c2 # rest"
    using two_or_three by blast
  with none lookup_points_applicable[OF ok, of layer] app err show ?thesis
    by (simp add: get_transform_for_layer_def solve_def del: lookup_points.simps)
qed

lemma get_transform_result:
  assumes ok: "groups_ok (orientation_points self)" and cache: "cache_ok self layer"
    and val: "\<forall>points. applicable_calibration (orientation_points self) layer = Some points \<longrightarrow>
                solve points = Inr r"
    and non: "applicable_calibration (orientation_points self) layer = None \<longrightarrow> r = None"
  shows "\<exists>self'. get_transform_for_layer self layer = Inr (r, self') \<and>
         orientation_points self' = orientation_points self \<and> cache_ok self' layer"
proof (cases "transforms self (ident layer)")
  case (Some t)
  with cache obtain points where
    "applicable_calibration (orientation_points self) layer = Some points"
    "solve points = Inr (Some t)"
    by (auto simp: cache_ok_def)
  with val have "r = Some t" by auto
  with Some cache show ?thesis by (simp add: get_transform_for_layer_def)
next
  case None
  note l = lookup_points_applicable[OF ok, of layer]
  show ?thesis
  proof (cases "applicable_calibration (orientation_points self) layer")
    case None
    with \<open>transforms self (ident layer) = None\<close> l cache non show ?thesis
      by (simp add: get_transform_for_layer_def del: lookup_points.simps)
  next
    case (Some points)
    from applicable_length[OF ok Some] obtain c1 c2 rest where p: "points = c1 # c2 # rest"
      using two_or_three by blast
    from val Some p have c: "calculate_transform c1 c2 = Inr r" by (simp add: solve_def)
    show ?thesis
    proof (cases r)
      case None
      with \<open>transforms self (ident layer) = None\<close> l cache Some p c show ?thesis
        by (simp add: get_transform_for_layer_def del: lookup_points.simps)
    next
      case (Some t)
      with \<open>transforms self (ident layer) = None\<close> l c
        \<open>applicable_calibration (orientation_points self) layer = Some points\<close> p
      show ?thesis
        by (simp add: get_transform_for_layer_def solve_def cache_ok_def del: lookup_points.simps)
    qed
  qed
qed

lemma mag_P_sub_commute: "mag (P_sub a b) = mag (P_sub b a)"
  by (simp add: mag_def P_sub_def power2_commute)

lemma lookup_points_own:
  "ops (ident layer) = Some (points # gs) \<Longrightarrow> lookup_points ops (Some layer) = Inr (Some points)"
  by simp

lemma sqrt_10000: "sqrt 10000 = 100"
  by (rule real_sqrt_unique) simp_all

lemma sqrt_2500: "sqrt 2500 = 50"
  by (rule real_sqrt_unique) simp_all

lemma zero_no_overflow: "\<not> sq_overflows 0"
  by (rule small_no_overflow) simp

lemma calibration_calls:
  assumes "transforms self (ident layer) = None"
    and "orientation_points self (ident layer) =
      Some (((d1, (mx1, my1, mz1)) # (d2, (mx2, my2, mz2)) # rest) # gs)"
    and "\<not> overflow [(d1, (mx1, my1, mz1)), (d2, (mx2, my2, mz2))]"
    and "1 / 10 ^ 6 \<le> mag (P_sub d1 d2)"
  shows "get_transform_for_layer self layer =
     Inr (Some [Translate (- fst d1) (- snd d1),
                Scale (mag (P_sub (mx2, my2) (mx1, my1)) / mag (P_sub d1 d2))
                      (mag (P_sub (mx2, my2) (mx1, my1)) / mag (P_sub d1 d2)),
                Rotate (degrees (atan2 (my2 - my1) (mx2 - mx1) -
                                 atan2 (snd d2 - snd d1) (fst d2 - fst d1))),
                Translate mx1 my1],
          self\<lparr>transforms := (transforms self)(ident layer \<mapsto>
               [Translate (- fst d1) (- snd d1),
                Scale (mag (P_sub (mx2, my2) (mx1, my1)) / mag (P_sub d1 d2))
                      (mag (P_sub (mx2, my2) (mx1, my1)) / mag (P_sub d1 d2)),
                Rotate (degrees (atan2 (my2 - my1) (mx2 - mx1) -
                                 atan2 (snd d2 - snd d1) (fst d2 - fst d1))),
                Translate mx1 my1])\<rparr>)"
proof -
  from assms(4) have far: "\<not> sqrt ((fst d2 - fst d1)\<^sup>2 + (snd d2 - snd d1)\<^sup>2) < 1 / 10 ^ 6"
    by (simp add: mag_def P_sub_def power2_commute not_less)
  from assms(2) have l: "lookup_points (orientation_points self) (Some layer) =
      Inr (Some ((d1, (mx1, my1, mz1)) # (d2, (mx2, my2, mz2)) # rest))"
    by (simp add: lookup_points_own)
  have c: "calculate_transform (d1, (mx1, my1, mz1)) (d2, (mx2, my2, mz2)) =
      Inr (Some [Translate (- fst d1) (- snd d1),
            Scale (mag (P_sub (mx2, my2) (mx1, my1)) / mag (P_sub d1 d2))
                  (mag (P_sub (mx2, my2) (mx1, my1)) / mag (P_sub d1 d2)),
            Rotate (degrees (atan2 (my2 - my1) (mx2 - mx1) -
                             atan2 (snd d2 - snd d1) (fst d2 - fst d1))),
            Translate mx1 my1])"
    using far assms(3)
    by (simp add: calculate_transform_def overflow_def pow2_def Let_def mag_def P_sub_def
          power2_commute)
  from assms(1) l c show ?thesis
    by (simp add: get_transform_for_layer_def del: lookup_points.simps)
qed

lemma degrees_radians: "degrees r * pi / 180 = r"
  by (simp add: degrees_def)

lemma calibration_example:
  "calculate_transform ((0, 0), (0, 0, 0)) ((100, 0), (50, 0, 0)) =
     Inr (Some [Translate 0 0, Scale (1 / 2) (1 / 2), Rotate 0, Translate 0 0]) \<and>
   apply_to_point [Translate 0 0, Scale (1 / 2) (1 / 2), Rotate 0, Translate 0 0] (100, 0) =
     (50, 0)"
proof -
  have "\<not> sq_overflows 100" "\<not> sq_overflows 50"
    by (rule small_no_overflow, simp)+
  then show ?thesis
    by (simp add: calculate_transform_def pow2_def zero_no_overflow Let_def atan2_def
          degrees_def sqrt_10000 sqrt_2500 apply_to_point_def transform_matrix_def matmul_def)
qed

text \<open>
  Two layers, the second inside the first, and three managers: one with a good
  calibration on the outer layer; two filled by \<open>find_orientation_points\<close>
  with a calibration on the outer layer whose drawing points coincide, the
  machine points being \<open>100\<close> apart in one and \<open>1e200\<close> apart in the other.
\<close>

definition root_layer :: "nat element" where
  "root_layer = Element 1 True None"

definition child_layer :: "nat element" where
  "child_layer = Element 2 True (Some root_layer)"

definition calibrated :: "nat orientation_manager" where
  "calibrated = \<lparr>orientation_points = [1 \<mapsto> [[((1, 1), (0, 0, 0)), ((4, 5), (0, 10, 0))]]],
                 transforms = Map.empty\<rparr>"

lemma calibrated_transform:
  "get_transform_for_layer calibrated root_layer =
     Inr (Some [Translate (- 1) (- 1), Scale 2 2,
                Rotate (degrees (pi / 2 - arctan (4 / 3))), Translate 0 0],
          calibrated\<lparr>transforms := [1 \<mapsto> [Translate (- 1) (- 1), Scale 2 2,
                Rotate (degrees (pi / 2 - arctan (4 / 3))), Translate 0 0]]\<rparr>)"
proof -
  have no: "\<not> overflow [((1, 1), (0, 0, 0)), ((4, 5), (0, 10, 0))]"
    by (simp add: overflow_def zero_no_overflow) (intro conjI; rule small_no_overflow; simp)
  have far: "1 / 10 ^ 6 \<le> mag (P_sub (1, 1) (4, 5))"
    by (simp add: mag_def P_sub_def sqrt_25)
  have v: "mag (P_sub (0, 10) (0, 0)) / mag (P_sub (1, 1) (4, 5)) = 2"
    "atan2 (10 - 0) (0 - 0) - atan2 (snd (4, 5) - snd (1, 1)) (fst (4, 5) - fst (1, 1)) =
       pi / 2 - arctan (4 / 3)"
    by (simp_all add: mag_def P_sub_def sqrt_25 sqrt_100 atan2_def)
  have "transforms calibrated (ident root_layer) = None"
    "orientation_points calibrated (ident root_layer) =
       Some ((((1, 1), (0, 0, 0)) # ((4, 5), (0, 10, 0)) # []) # [])"
    by (simp_all add: calibrated_def root_layer_def)
  from calibration_calls[OF this no far, unfolded v] show ?thesis
    by (simp add: calibrated_def root_layer_def)
qed

text \<open>
  C2. For the calibration \<open>drawing1 = (1,1)\<close>, \<open>machine1 = (0,0)\<close>,
  \<open>drawing2 = (4,5)\<close>, \<open>machine2 = (0,10)\<close> the lookup makes the calls
  translate \<open>(-1,-1)\<close>, scale \<open>2\<close>, rotate \<open>atan2 (0,10) - atan2 (3,4)\<close>,
  translate \<open>(0,0)\<close>, as claimed. The transform these calls build has the
  matrix \<open>(1.6, 1.2, -1.2, 1.6, -1, -1)\<close> and sends \<open>drawing1\<close> to
  \<open>(-0.6, 1.8)\<close>: the steps act in the reverse of the call order. The claimed
  composition, translate by \<open>-drawing1\<close> first and by \<open>machine1\<close> last, sends
  \<open>drawing1\<close> to \<open>machine1 = (0,0)\<close>.
\<close>

theorem calibration_applied_in_reverse:
  "get_transform_for_layer calibrated root_layer =
     Inr (Some [Translate (- 1) (- 1), Scale 2 2,
                Rotate (degrees (pi / 2 - arctan (4 / 3))), Translate 0 0],
          calibrated\<lparr>transforms := [1 \<mapsto> [Translate (- 1) (- 1), Scale 2 2,
                Rotate (degrees (pi / 2 - arctan (4 / 3))), Translate 0 0]]\<rparr>) \<and>
   transform_matrix [Translate (- 1) (- 1), Scale 2 2,
                Rotate (degrees (pi / 2 - arctan (4 / 3))), Translate 0 0] =
     (8 / 5, 6 / 5, - (6 / 5), 8 / 5, - 1, - 1) \<and>
   apply_to_point [Translate (- 1) (- 1), Scale 2 2,
                Rotate (degrees (pi / 2 - arctan (4 / 3))), Translate 0 0] (1, 1) =
     (- (3 / 5), 9 / 5) \<and>
   P_add (P_rot (P_mul (P_sub (1, 1) (1, 1)) 2) (pi / 2 - arctan (4 / 3))) (0, 0) = (0, 0)"
proof -
  have m: "transform_matrix [Translate (- 1) (- 1), Scale 2 2,
                Rotate (degrees (pi / 2 - arctan (4 / 3))), Translate 0 0] =
     (8 / 5, 6 / 5, - (6 / 5), 8 / 5, - 1, - 1)"
    by (simp add: transform_matrix_def matmul_def Let_def degrees_radians cos_rot sin_rot)
  have a: "apply_to_point [Translate (- 1) (- 1), Scale 2 2,
                Rotate (degrees (pi / 2 - arctan (4 / 3))), Translate 0 0] (1, 1) =
     (- (3 / 5), 9 / 5)"
    by (simp add: apply_to_point_def m)
  have c: "P_add (P_rot (P_mul (P_sub (1, 1) (1, 1)) 2) (pi / 2 - arctan (4 / 3))) (0, 0) = (0, 0)"
    by (simp add: P_add_def P_rot_def P_mul_def P_sub_def Let_def)
  from calibrated_transform m a c show ?thesis by simp
qed

definition degenerate :: "nat orientation_manager" where
  "degenerate =
     snd (find_orientation_points \<lparr>orientation_points = Map.empty, transforms = Map.empty\<rparr>
            [(1, [((0, 0), (0, 0, 0)), ((0, 0), (100, 0, 0))])])"

definition overflowing :: "nat orientation_manager" where
  "overflowing =
     snd (find_orientation_points \<lparr>orientation_points = Map.empty, transforms = Map.empty\<rparr>
            [(1, [((0, 0), (0, 0, 0)), ((0, 0), (10 ^ 200, 0, 0))])])"

text \<open>
  C3, as stated, fails. With coinciding drawing points and machine points
  \<open>1e200\<close> apart, a calibration that \<open>find_orientation_points\<close> accepts, the
  lookup does not return \<^verbatim>\<open>None\<close>: the machine length is computed before
  the drawing length is tested, and \<^verbatim>\<open>gcode_dx**2\<close> raises
  \<^verbatim>\<open>OverflowError\<close>.
\<close>

theorem lookup_overflow_counterexample:
  "groups_ok (orientation_points overflowing) \<and> cache_ok overflowing root_layer \<and>
   applicable_calibration (orientation_points overflowing) root_layer =
     Some [((0, 0), (0, 0, 0)), ((0, 0), (10 ^ 200, 0, 0))] \<and>
   coincide [((0, 0), (0, 0, 0)), ((0, 0), (10 ^ 200, 0, 0))] \<and>
   get_transform_for_layer overflowing root_layer = Inl OverflowError"
proof -
  have ok: "groups_ok (orientation_points overflowing)"
    unfolding overflowing_def by (rule find_orientation_points_ok)
  have ops: "orientation_points overflowing =
      [1 \<mapsto> [[((0, 0), (0, 0, 0)), ((0, 0), (10 ^ 200, 0, 0))]]]"
    by (simp add: overflowing_def find_orientation_points_def parse_orientation_group_def Let_def)
  have cache: "cache_ok overflowing root_layer"
    by (simp add: cache_ok_def overflowing_def find_orientation_points_def Let_def)
  have app: "applicable_calibration (orientation_points overflowing) root_layer =
     Some [((0, 0), (0, 0, 0)), ((0, 0), (10 ^ 200, 0, 0))]"
    by (simp add: ops applicable_calibration_def layer_chain_def root_layer_def)
  have co: "coincide [((0, 0), (0, 0, 0)), ((0, 0), (10 ^ 200, 0, 0))]"
    by (simp add: coincide_def)
  have "overflow [((0, 0), (0, 0, 0)), ((0, 0), (10 ^ 200, 0, 0))]"
    using big_overflow by (simp add: overflow_def)
  then have "solve [((0, 0), (0, 0, 0)), ((0, 0), (10 ^ 200, 0, 0))] = Inl OverflowError"
    by (intro solve_overflow) simp_all
  from get_transform_error[OF ok cache app this] ok cache app co show ?thesis by simp
qed

lemma lookup_result:
  assumes ok: "groups_ok (orientation_points self)" and cache: "cache_ok self layer"
  shows "if (\<exists>points. applicable_calibration (orientation_points self) layer = Some points \<and>
                  overflow points)
     then get_transform_for_layer self layer = Inl OverflowError
     else (\<exists>r self'. get_transform_for_layer self layer = Inr (r, self') \<and>
         (r = None \<longleftrightarrow>
            (\<forall>e \<in> set (layer_chain layer). orientation_points self (ident e) = None) \<or>
            (\<exists>points. applicable_calibration (orientation_points self) layer = Some points \<and>
                      coincide points)) \<and>
         (\<forall>points. applicable_calibration (orientation_points self) layer = Some points \<longrightarrow>
            solve points = Inr r) \<and>
         orientation_points self' = orientation_points self \<and> cache_ok self' layer)"
proof (cases "applicable_calibration (orientation_points self) layer")
  case None
  from get_transform_result[OF ok cache, of None] None obtain self' where
    "get_transform_for_layer self layer = Inr (None, self')"
    "orientation_points self' = orientation_points self" "cache_ok self' layer"
    by auto
  with None applicable_None[OF ok, of layer] show ?thesis by auto
next
  case (Some points)
  note len = applicable_length[OF ok Some]
  show ?thesis
  proof (cases "overflow points")
    case True
    from get_transform_error[OF ok cache Some solve_overflow[OF len True]] Some True
    show ?thesis by auto
  next
    case False
    from solve_value[OF len False] obtain r where
      r: "solve points = Inr r" "r = None \<longleftrightarrow> coincide points" by blast
    from get_transform_result[OF ok cache, of r] Some r obtain self' where
      g: "get_transform_for_layer self layer = Inr (r, self')"
      "orientation_points self' = orientation_points self" "cache_ok self' layer"
      by auto
    from Some applicable_None[OF ok, of layer]
    have n: "\<not> (\<forall>e \<in> set (layer_chain layer). orientation_points self (ident e) = None)"
      by simp
    from Some False have no: "\<not> (\<exists>points.
        applicable_calibration (orientation_points self) layer = Some points \<and> overflow points)"
      by simp
    have ex: "\<exists>r self'. get_transform_for_layer self layer = Inr (r, self') \<and>
         (r = None \<longleftrightarrow>
            (\<forall>e \<in> set (layer_chain layer). orientation_points self (ident e) = None) \<or>
            (\<exists>points. applicable_calibration (orientation_points self) layer = Some points \<and>
                      coincide points)) \<and>
         (\<forall>points. applicable_calibration (orientation_points self) layer = Some points \<longrightarrow>
            solve points = Inr r) \<and>
         orientation_points self' = orientation_points self \<and> cache_ok self' layer"
      using g r n Some by (intro exI[of _ r] exI[of _ self']) auto
    show ?thesis by (simp only: no if_False) (rule ex)
  qed
qed

text \<open>
  C3, amended. \<open>find_orientation_points\<close> leaves a manager whose groups are well
  formed, and with an empty cache every layer's cache is consistent. In such a
  state, the applicable calibration being that of the queried layer or else of
  the nearest layer above it that has one: if one of its four squared
  coordinate differences is out of float range the lookup raises
  \<^verbatim>\<open>OverflowError\<close>; otherwise it raises nothing, returns what is solved
  from the applicable calibration, and returns \<^verbatim>\<open>None\<close> exactly when no
  element of the chain has a calibration or the applicable one has coinciding
  drawing points. No other value stands in for a missing transform. The stored
  calibrations are unchanged and the cache stays consistent.
\<close>

theorem lookup_no_transform:
  "(transforms self0 = Map.empty \<longrightarrow>
      groups_ok (orientation_points (snd (find_orientation_points self0 groups))) \<and>
      cache_ok (snd (find_orientation_points self0 groups)) layer0) \<and>
   (groups_ok (orientation_points self) \<and> cache_ok self layer \<longrightarrow>
      (if (\<exists>points. applicable_calibration (orientation_points self) layer = Some points \<and>
                  overflow points)
       then get_transform_for_layer self layer = Inl OverflowError
       else (\<exists>r self'. get_transform_for_layer self layer = Inr (r, self') \<and>
         (r = None \<longleftrightarrow>
            (\<forall>e \<in> set (layer_chain layer). orientation_points self (ident e) = None) \<or>
            (\<exists>points. applicable_calibration (orientation_points self) layer = Some points \<and>
                      coincide points)) \<and>
         (\<forall>points. applicable_calibration (orientation_points self) layer = Some points \<longrightarrow>
            solve points = Inr r) \<and>
         orientation_points self' = orientation_points self \<and> cache_ok self' layer)))"
proof (intro conjI impI)
  show "groups_ok (orientation_points (snd (find_orientation_points self0 groups)))"
    by (rule find_orientation_points_ok)
next
  assume "transforms self0 = Map.empty"
  then show "cache_ok (snd (find_orientation_points self0 groups)) layer0"
    by (simp add: cache_ok_def find_orientation_points_def Let_def)
next
  assume "groups_ok (orientation_points self) \<and> cache_ok self layer"
  then show "if (\<exists>points. applicable_calibration (orientation_points self) layer = Some points \<and>
                  overflow points)
       then get_transform_for_layer self layer = Inl OverflowError
       else (\<exists>r self'. get_transform_for_layer self layer = Inr (r, self') \<and>
         (r = None \<longleftrightarrow>
            (\<forall>e \<in> set (layer_chain layer). orientation_points self (ident e) = None) \<or>
            (\<exists>points. applicable_calibration (orientation_points self) layer = Some points \<and>
                      coincide points)) \<and>
         (\<forall>points. applicable_calibration (orientation_points self) layer = Some points \<longrightarrow>
            solve points = Inr r) \<and>
         orientation_points self' = orientation_points self \<and> cache_ok self' layer)"
    using lookup_result by blast
qed

theorem lookup_no_transform_witness:
  "groups_ok (orientation_points degenerate) \<and> cache_ok degenerate child_layer \<and>
   orientation_points degenerate (ident child_layer) = None \<and>
   applicable_calibration (orientation_points degenerate) child_layer =
     Some [((0, 0), (0, 0, 0)), ((0, 0), (100, 0, 0))] \<and>
   \<not> overflow [((0, 0), (0, 0, 0)), ((0, 0), (100, 0, 0))] \<and>
   coincide [((0, 0), (0, 0, 0)), ((0, 0), (100, 0, 0))] \<and>
   (\<exists>self'. get_transform_for_layer degenerate child_layer = Inr (None, self'))"
proof -
  have ok: "groups_ok (orientation_points degenerate)"
    unfolding degenerate_def by (rule find_orientation_points_ok)
  have ops: "orientation_points degenerate = [1 \<mapsto> [[((0, 0), (0, 0, 0)), ((0, 0), (100, 0, 0))]]]"
    by (simp add: degenerate_def find_orientation_points_def parse_orientation_group_def Let_def)
  have cache: "cache_ok degenerate child_layer"
    by (simp add: cache_ok_def degenerate_def find_orientation_points_def Let_def)
  have own: "orientation_points degenerate (ident child_layer) = None"
    by (simp add: ops child_layer_def)
  have app: "applicable_calibration (orientation_points degenerate) child_layer =
     Some [((0, 0), (0, 0, 0)), ((0, 0), (100, 0, 0))]"
    by (simp add: ops applicable_calibration_def layer_chain_def child_layer_def root_layer_def)
  have co: "coincide [((0, 0), (0, 0, 0)), ((0, 0), (100, 0, 0))]"
    by (simp add: coincide_def)
  have "\<not> sq_overflows 100" by (rule small_no_overflow) simp
  then have no: "\<not> overflow [((0, 0), (0, 0, 0)), ((0, 0), (100, 0, 0))]"
    by (simp add: overflow_def zero_no_overflow)
  with app have no': "\<not> (\<exists>points.
      applicable_calibration (orientation_points degenerate) child_layer = Some points \<and>
      overflow points)"
    by simp
  from lookup_no_transform[THEN conjunct2, rule_format, OF conjI[OF ok cache]] no'
  obtain r self' where
    g: "get_transform_for_layer degenerate child_layer = Inr (r, self')" and
    n: "r = None \<longleftrightarrow>
        (\<forall>e \<in> set (layer_chain child_layer). orientation_points degenerate (ident e) = None) \<or>
        (\<exists>points. applicable_calibration (orientation_points degenerate) child_layer = Some points \<and>
                  coincide points)"
    by (auto split: if_splits)
  from n app co have "r = None" by blast
  with g have "\<exists>self'. get_transform_for_layer degenerate child_layer = Inr (None, self')"
    by blast
  with ok cache own app no co show ?thesis by blast
qed


end
